theory Spec2Isabelle
  imports Main "HOL-Library.Multiset"
begin

section \<open>Data model (types.ts, context-manager, errors)\<close>

text \<open>
  \<^verbatim>\<open>Vulnerability.severity\<close> is the TypeScript union \<^verbatim>\<open>'high' | 'medium' | 'low'\<close>,
  which the response schema enforces with \<^verbatim>\<open>z.enum(['high', 'medium', 'low'])\<close>.
\<close>

datatype severity = High | Medium | Low

record Vulnerability =
  severity :: severity
  file_v :: string
  line :: int
  description :: string
  recommendation :: string

text \<open>The \<^verbatim>\<open>summary\<close> object of a \<^verbatim>\<open>VulnerabilityReport\<close>; the field \<^verbatim>\<open>total\<close> is
  written \<open>total_n\<close> here.\<close>

record ReportSummary =
  total_n :: nat
  high :: nat
  medium :: nat
  low :: nat

record VulnerabilityReport =
  vulnerabilities :: "Vulnerability list"
  rsummary :: ReportSummary
  insights :: "string list"

section \<open>Reporter.generateReport\<close>

text \<open>
  \<^verbatim>\<open>xs.filter(p).length\<close> is \<open>length (filter p xs)\<close>. Both copies of the Reporter
  class in the repository have the same \<^verbatim>\<open>generateReport\<close>.
\<close>

definition generateReport :: "Vulnerability list \<Rightarrow> string list \<Rightarrow> VulnerabilityReport" where
  "generateReport vulns ins =
     (let summ = \<lparr> total_n = length vulns,
                   high = length (filter (\<lambda>v. severity v = High) vulns),
                   medium = length (filter (\<lambda>v. severity v = Medium) vulns),
                   low = length (filter (\<lambda>v. severity v = Low) vulns) \<rparr>
      in \<lparr> vulnerabilities = vulns, rsummary = summ, insights = ins \<rparr>)"

section \<open>Strings and paths\<close>

text \<open>
  JavaScript strings are modelled as \<open>string\<close>, one \<open>char\<close> for each code unit, so
  \<^verbatim>\<open>s.length\<close> is \<open>length s\<close>. \<^verbatim>\<open>toLowerCase\<close> is modelled on the ASCII letters, which
  is all the keys of the extension table contain; \<^verbatim>\<open>isSupportedFile\<close> and
  \<^verbatim>\<open>getLanguage\<close> apply the same function to the same extension.
\<close>

definition startsWith :: "string \<Rightarrow> string \<Rightarrow> bool" where
  "startsWith s p = (take (length p) s = p)"

definition endsWith :: "string \<Rightarrow> string \<Rightarrow> bool" where
  "endsWith s p = (length p \<le> length s \<and> drop (length s - length p) s = p)"

definition toLowerChar :: "char \<Rightarrow> char" where
  "toLowerChar c =
     (case map_of (zip ''ABCDEFGHIJKLMNOPQRSTUVWXYZ'' ''abcdefghijklmnopqrstuvwxyz'') c of
        None \<Rightarrow> c
      | Some l \<Rightarrow> l)"

definition toLowerCase :: "string \<Rightarrow> string" where
  "toLowerCase s = map toLowerChar s"

text \<open>\<^verbatim>\<open>s.split(sep)\<close> for a one-character separator: the pieces between separators;
  the empty string gives one empty piece.\<close>

fun split_on :: "char \<Rightarrow> string \<Rightarrow> string list" where
  "split_on sep [] = [[]]"
| "split_on sep (c # cs) =
     (if c = sep then [] # split_on sep cs
      else (case split_on sep cs of
              [] \<Rightarrow> [[c]]
            | p # ps \<Rightarrow> (c # p) # ps))"

definition newline :: char where
  "newline = CHR 0x0A"

text \<open>
  Node's \<^verbatim>\<open>path.extname\<close> on a single path segment: the text from the last dot on,
  and the empty string when there is no dot, when the only dot is the first character,
  or when the segment is \<^verbatim>\<open>..\<close>.
\<close>

definition extname :: "string \<Rightarrow> string" where
  "extname name =
     (if CHR ''.'' \<notin> set name then []
      else (let after = rev (takeWhile (\<lambda>c. c \<noteq> CHR ''.'') (rev name));
                startDot = length name - length after - 1
            in if startDot = 0 \<or> name = ''..'' then [] else drop startDot name))"

text \<open>
  A path is the list of its segments. The scan starts at the segment list \<open>[rootDir]\<close>;
  \<^verbatim>\<open>path.join(currentDir, entry.name)\<close> appends one segment (directory entries are
  single segments), \<^verbatim>\<open>path.extname\<close> of a path looks at its last segment, and
  \<^verbatim>\<open>path.relative(from, to)\<close> climbs out of what is left of \<open>from\<close> after the common
  prefix and descends into the rest of \<open>to\<close>.
\<close>

type_synonym path = "string list"

definition path_join :: "path \<Rightarrow> string \<Rightarrow> path" where
  "path_join currentDir name = currentDir @ [name]"

definition path_extname :: "path \<Rightarrow> string" where
  "path_extname p = (if p = [] then [] else extname (last p))"

fun common_prefix_len :: "path \<Rightarrow> path \<Rightarrow> nat" where
  "common_prefix_len (a # as) (b # bs) = (if a = b then Suc (common_prefix_len as bs) else 0)"
| "common_prefix_len _ _ = 0"

definition path_relative :: "path \<Rightarrow> path \<Rightarrow> path" where
  "path_relative from to =
     (let k = common_prefix_len from to
      in replicate (length from - k) ''..'' @ drop k to)"

fun path_str :: "path \<Rightarrow> string" where
  "path_str [] = []"
| "path_str [s] = s"
| "path_str (s # rest) = s @ ''/'' @ path_str rest"

section \<open>Errors (errors.ts)\<close>

text \<open>
  The error classes with their constructor arguments. \<open>Error\<close> is the built-in class
  (file-system and transport errors). A \<^verbatim>\<open>throw\<close> can raise any value:
  \<open>ThrowError\<close> carries an instance of \<^verbatim>\<open>Error\<close>, \<open>ThrowOther\<close> any other value, given
  by its \<^verbatim>\<open>String(...)\<close> rendering.
\<close>

datatype error =
    Error string
  | ConfigurationError string
  | AIAnalysisError string "error option"
  | FileProcessingError string "string option"
  | ContextBuildError string "string option"
  | InsightGenerationError string "error option"
  | ValidationError string

datatype thrown = ThrowError error | ThrowOther string

text \<open>\<^verbatim>\<open>ErrorHandler.tryAsync(operation, errorMessage, ErrorClass)\<close>, applied to the outcome
  of the operation.\<close>

definition tryAsync ::
  "thrown + 'a \<Rightarrow> string \<Rightarrow> (string \<Rightarrow> error option \<Rightarrow> error) \<Rightarrow> error + 'a" where
  "tryAsync operation errorMessage ErrorClass =
     (case operation of
        Inr v \<Rightarrow> Inr v
      | Inl (ThrowError e) \<Rightarrow> Inl (ErrorClass errorMessage (Some e))
      | Inl (ThrowOther s) \<Rightarrow> Inl (ErrorClass (errorMessage @ '': '' @ s) None))"

text \<open>A function of this model that raises only \<^verbatim>\<open>Error\<close> instances, seen as an
  operation.\<close>

definition throwing :: "error + 'a \<Rightarrow> thrown + 'a" where
  "throwing r = (case r of Inl e \<Rightarrow> Inl (ThrowError e) | Inr v \<Rightarrow> Inr v)"

section \<open>The file system\<close>

text \<open>
  A directory listing (\<^verbatim>\<open>fs.readdir(dir, { withFileTypes: true })\<close>) is a list of
  entries. A directory entry carries the listing of that directory, \<open>None\<close> when
  \<^verbatim>\<open>readdir\<close> on it throws; \<open>OtherEntry\<close> is an entry that is neither a directory nor a
  regular file. \<open>readdir_root\<close> gives the listing of the directory a scan starts from
  (\<open>None\<close>: it does not exist or cannot be listed); \<open>readFile\<close> gives the text of a file
  (\<open>Inr\<close>) or the message of the error it throws (\<open>Inl\<close>).
\<close>

datatype dirent =
    RegularFile string
  | Directory string "dirent list option"
  | OtherEntry string

record FileSystem =
  readdir_root :: "string \<Rightarrow> dirent list option"
  readFile :: "path \<Rightarrow> string + string"

section \<open>File discovery (ContextManager.scanDirectory, FileScanner.scanDirectory)\<close>

definition SUPPORTED_EXTENSIONS :: "(string \<times> string) list" where
  "SUPPORTED_EXTENSIONS =
     [(''.js'', ''javascript''), (''.ts'', ''typescript''), (''.jsx'', ''javascript''),
      (''.tsx'', ''typescript''), (''.py'', ''python''), (''.java'', ''java''),
      (''.cpp'', ''cpp''), (''.c'', ''c''), (''.cs'', ''csharp''), (''.php'', ''php''),
      (''.rb'', ''ruby''), (''.go'', ''go''), (''.rs'', ''rust''), (''.swift'', ''swift''),
      (''.kt'', ''kotlin''), (''.scala'', ''scala''), (''.sh'', ''bash''), (''.sql'', ''sql''),
      (''.html'', ''html''), (''.css'', ''css''), (''.scss'', ''scss''), (''.json'', ''json''),
      (''.yaml'', ''yaml''), (''.yml'', ''yaml''), (''.xml'', ''xml''), (''.md'', ''markdown'')]"

definition IGNORED_DIRS :: "string list" where
  "IGNORED_DIRS =
     [''node_modules'', ''.git'', ''.vscode'', ''.idea'',
      ''dist'', ''build'', ''target'', ''__pycache__'',
      ''.next'', ''.nuxt'', ''coverage'', ''.nyc_output'']"

definition MAX_FILE_SIZE :: nat where
  "MAX_FILE_SIZE = 100 * 1024"

text \<open>\<^verbatim>\<open>ext in SUPPORTED_EXTENSIONS\<close>: the table has the key.\<close>

definition isSupportedFile :: "string \<Rightarrow> bool" where
  "isSupportedFile filename =
     (let ext = toLowerCase (extname filename)
      in map_of SUPPORTED_EXTENSIONS ext \<noteq> None)"

text \<open>\<^verbatim>\<open>SUPPORTED_EXTENSIONS[ext] || 'text'\<close>: a missing key and an empty tag both give
  \<^verbatim>\<open>'text'\<close>.\<close>

definition getLanguage :: "path \<Rightarrow> string" where
  "getLanguage filePath =
     (let ext = toLowerCase (path_extname filePath)
      in case map_of SUPPORTED_EXTENSIONS ext of
           None \<Rightarrow> ''text''
         | Some lang \<Rightarrow> if lang = [] then ''text'' else lang)"

text \<open>The constants of the class \<^verbatim>\<open>FileScanner\<close>.\<close>

definition FileScanner_SUPPORTED_EXTENSIONS :: "string list" where
  "FileScanner_SUPPORTED_EXTENSIONS = [''.js'', ''.ts'', ''.py'']"

definition FileScanner_IGNORED_DIRS :: "string list" where
  "FileScanner_IGNORED_DIRS = [''node_modules'', ''.git'', ''.vscode'', ''dist'', ''build'']"

definition FileScanner_isSupportedFile :: "string \<Rightarrow> bool" where
  "FileScanner_isSupportedFile filename =
     list_ex (\<lambda>ext. endsWith filename ext) FileScanner_SUPPORTED_EXTENSIONS"

text \<open>
  The inner function \<^verbatim>\<open>scan(currentDir)\<close>, as the loop over the entries of \<open>currentDir\<close>
  with the array \<^verbatim>\<open>files\<close> passed along. The two classes have the same loop and differ
  in the ignore-list and in the test for a supported file, the first two arguments. A
  \<^verbatim>\<open>readdir\<close> that throws anywhere ends the whole scan.
\<close>

fun scan ::
  "string list \<Rightarrow> (string \<Rightarrow> bool) \<Rightarrow> path \<Rightarrow> dirent list \<Rightarrow> path list \<Rightarrow> error + path list" where
  "scan ignored supported currentDir [] files = Inr files"
| "scan ignored supported currentDir (RegularFile name # entries) files =
     (let fullPath = path_join currentDir name
      in if supported name
         then scan ignored supported currentDir entries (files @ [fullPath])
         else scan ignored supported currentDir entries files)"
| "scan ignored supported currentDir (Directory name listing # entries) files =
     (let fullPath = path_join currentDir name
      in if \<not> startsWith name ''.'' \<and> name \<notin> set ignored
         then (case listing of
                 None \<Rightarrow> Inl (Error ''readdir failed'')
               | Some sub \<Rightarrow>
                   (case scan ignored supported fullPath sub files of
                      Inl e \<Rightarrow> Inl e
                    | Inr files' \<Rightarrow> scan ignored supported currentDir entries files'))
         else scan ignored supported currentDir entries files)"
| "scan ignored supported currentDir (OtherEntry name # entries) files =
     scan ignored supported currentDir entries files"

definition scan_from ::
  "string list \<Rightarrow> (string \<Rightarrow> bool) \<Rightarrow> FileSystem \<Rightarrow> string \<Rightarrow> error + path list" where
  "scan_from ignored supported fs dir =
     (case readdir_root fs dir of
        None \<Rightarrow> Inl (Error ''readdir failed'')
      | Some entries \<Rightarrow> scan ignored supported [dir] entries [])"

definition scanDirectory :: "FileSystem \<Rightarrow> string \<Rightarrow> error + path list" where
  "scanDirectory fs dir = scan_from IGNORED_DIRS isSupportedFile fs dir"

definition FileScanner_scanDirectory :: "FileSystem \<Rightarrow> string \<Rightarrow> error + path list" where
  "FileScanner_scanDirectory fs dir =
     scan_from FileScanner_IGNORED_DIRS FileScanner_isSupportedFile fs dir"

section \<open>Context builder (ContextManager.buildContext, generateSummary)\<close>

text \<open>The field \<^verbatim>\<open>size\<close> of a \<^verbatim>\<open>FileContext\<close> is written \<open>size_f\<close>.\<close>

record FileContext =
  path :: path
  content :: string
  language :: string
  size_f :: nat

record ContextSummary =
  totalFiles :: nat
  totalLines :: nat
  languages :: "(string \<times> nat) list"
  largestFile :: path
  averageFileSize :: nat

record CodebaseContext =
  files :: "FileContext list"
  summary :: ContextSummary

text \<open>
  \<^verbatim>\<open>languages[k] = (languages[k] || 0) + 1\<close> on the object \<^verbatim>\<open>languages\<close>, kept as the
  list of its keys in insertion order with their counts. The language tags of the
  extension table are not names of properties that every object inherits.
\<close>

fun bump :: "string \<Rightarrow> (string \<times> nat) list \<Rightarrow> (string \<times> nat) list" where
  "bump k [] = [(k, 0 + 1)]"
| "bump k ((k', n) # rest) =
     (if k = k' then (k', (if n = 0 then 0 else n) + 1) # rest else (k', n) # bump k rest)"

text \<open>The state of the loop of \<^verbatim>\<open>generateSummary\<close>: \<^verbatim>\<open>languages\<close>, \<^verbatim>\<open>totalLines\<close>,
  \<^verbatim>\<open>largestFile\<close>, \<^verbatim>\<open>largestSize\<close> (local variables carry the suffix \<open>_v\<close> where a
  field has the same name).\<close>

fun summaryLoop ::
  "FileContext list \<Rightarrow> (string \<times> nat) list \<times> nat \<times> path \<times> nat
     \<Rightarrow> (string \<times> nat) list \<times> nat \<times> path \<times> nat" where
  "summaryLoop [] st = st"
| "summaryLoop (f # rest) (langs, totalLines_v, largestFile_v, largestSize) =
     (let langs' = bump (language f) langs;
          lines = length (split_on newline (content f));
          totalLines_v' = totalLines_v + lines
      in if size_f f > largestSize
         then summaryLoop rest (langs', totalLines_v', path f, size_f f)
         else summaryLoop rest (langs', totalLines_v', largestFile_v, largestSize))"

text \<open>\<^verbatim>\<open>Math.round(s / n)\<close> for natural numbers \<open>s\<close> and \<open>n > 0\<close>: halves round up.\<close>

definition round_div :: "nat \<Rightarrow> nat \<Rightarrow> nat" where
  "round_div s n = (2 * s + n) div (2 * n)"

definition generateSummary :: "FileContext list \<Rightarrow> ContextSummary" where
  "generateSummary fs =
     (case summaryLoop fs ([], 0, [], 0) of
        (langs, totalLines_v, largestFile_v, largestSize) \<Rightarrow>
          \<lparr> totalFiles = length fs,
            totalLines = totalLines_v,
            languages = langs,
            largestFile = largestFile_v,
            averageFileSize =
              (if length fs > 0 then round_div (foldl (\<lambda>sum f. sum + size_f f) 0 fs) (length fs)
               else 0) \<rparr>)"

text \<open>
  The read loop of \<^verbatim>\<open>buildContext\<close>, with the array \<^verbatim>\<open>fileContexts\<close> and the lines
  written by \<^verbatim>\<open>console.warn\<close> as its state. The \<^verbatim>\<open>try\<close> block covers the read, the
  language lookup and the size test; its \<^verbatim>\<open>catch\<close> warns and goes on.
\<close>

fun readLoop ::
  "FileSystem \<Rightarrow> string \<Rightarrow> path list \<Rightarrow> FileContext list \<times> string list
     \<Rightarrow> FileContext list \<times> string list" where
  "readLoop fs rootDir [] st = st"
| "readLoop fs rootDir (filePath # rest) (fileContexts, warnings) =
     (case readFile fs filePath of
        Inl msg \<Rightarrow>
          readLoop fs rootDir rest
            (fileContexts,
             warnings @ [''Warning: Could not read file '' @ path_str filePath @ '': '' @ msg])
      | Inr content_v \<Rightarrow>
          (let language_v = getLanguage filePath
           in if length content_v > MAX_FILE_SIZE
              then readLoop fs rootDir rest (fileContexts, warnings)
              else readLoop fs rootDir rest
                     (fileContexts @
                        [\<lparr> path = path_relative [rootDir] filePath, content = content_v,
                            language = language_v, size_f = length content_v \<rparr>],
                      warnings)))"

definition buildContext :: "FileSystem \<Rightarrow> string \<Rightarrow> error + CodebaseContext" where
  "buildContext fs rootDir =
     (if rootDir = [] then
        Inl (ContextBuildError ''Root directory path is required and must be a string'' None)
      else
        (case scanDirectory fs rootDir of
           Inl e \<Rightarrow> Inl (ContextBuildError (''Failed to scan directory: '' @ rootDir) (Some rootDir))
         | Inr paths \<Rightarrow>
             if length paths = 0 then
               Inl (ContextBuildError (''No supported files found in directory: '' @ rootDir) None)
             else
               (case readLoop fs rootDir paths ([], []) of
                  (fileContexts, warnings) \<Rightarrow>
                    if length fileContexts = 0 then
                      Inl (ContextBuildError
                             ''No readable files found or all files exceed maximum size limit'' None)
                    else
                      Inr \<lparr> files = fileContexts, summary = generateSummary fileContexts \<rparr>)))"

text \<open>What \<^verbatim>\<open>buildContext\<close> writes with \<^verbatim>\<open>console.warn\<close>.\<close>

definition buildContext_warnings :: "FileSystem \<Rightarrow> string \<Rightarrow> string list" where
  "buildContext_warnings fs rootDir =
     (if rootDir = [] then []
      else (case scanDirectory fs rootDir of
              Inl e \<Rightarrow> []
            | Inr paths \<Rightarrow> snd (readLoop fs rootDir paths ([], []))))"

section \<open>Context condenser (ContextManager.getCondensedContext)\<close>

text \<open>The comparator passed to \<^verbatim>\<open>sort\<close>.\<close>

definition compareFiles :: "FileContext \<Rightarrow> FileContext \<Rightarrow> int" where
  "compareFiles a b =
     (let aIsMainLang = language a \<in> set [''typescript'', ''javascript''];
          bIsMainLang = language b \<in> set [''typescript'', ''javascript'']
      in if aIsMainLang \<and> \<not> bIsMainLang then - 1
         else if \<not> aIsMainLang \<and> bIsMainLang then 1
         else int (size_f b) - int (size_f a))"

text \<open>
  \<^verbatim>\<open>Array.prototype.sort(cmp)\<close> is a stable sort: the result is ordered by \<open>cmp\<close> and
  elements that compare equal keep their order. Insertion from the right, before the
  first element that does not compare smaller, computes that result.
\<close>

fun insert_cmp :: "('a \<Rightarrow> 'a \<Rightarrow> int) \<Rightarrow> 'a \<Rightarrow> 'a list \<Rightarrow> 'a list" where
  "insert_cmp cmp x [] = [x]"
| "insert_cmp cmp x (y # ys) =
     (if cmp x y \<le> 0 then x # y # ys else y # insert_cmp cmp x ys)"

definition sort_cmp :: "('a \<Rightarrow> 'a \<Rightarrow> int) \<Rightarrow> 'a list \<Rightarrow> 'a list" where
  "sort_cmp cmp xs = foldr (insert_cmp cmp) xs []"

text \<open>\<^verbatim>\<open>xs.slice(0, end)\<close> for an integer \<open>end\<close>: a negative \<open>end\<close> counts from the end
  of the array.\<close>

definition slice0 :: "'a list \<Rightarrow> int \<Rightarrow> 'a list" where
  "slice0 xs end_i =
     (let len = int (length xs);
          final = (if end_i < 0 then max (len + end_i) 0 else min end_i len)
      in take (nat final) xs)"

definition getCondensedContext :: "FileSystem \<Rightarrow> string \<Rightarrow> int \<Rightarrow> error + CodebaseContext" where
  "getCondensedContext fs rootDir maxFiles =
     (case buildContext fs rootDir of
        Inl e \<Rightarrow> Inl e
      | Inr fullContext \<Rightarrow>
          (let sortedFiles = sort_cmp compareFiles (files fullContext);
               condensedFiles = slice0 sortedFiles maxFiles
           in Inr \<lparr> files = condensedFiles, summary = generateSummary condensedFiles \<rparr>))"

section \<open>Analysis client (CodeAnalyzer.analyzeCodebase)\<close>

record Config =
  apiKey :: string
  model :: string

text \<open>
  The value of \<^verbatim>\<open>generateObject\<close>: \<^verbatim>\<open>result.object\<close> may be absent, and its field
  \<^verbatim>\<open>vulnerabilities\<close> may be absent or not an array (\<open>None\<close>).
\<close>

record AnalysisSummary =
  totalIssues :: int
  criticalFindings :: "string list"
  overallRisk :: severity

record AnalysisObject =
  obj_vulnerabilities :: "Vulnerability list option"
  obj_summary :: "AnalysisSummary option"

record AnalysisResult =
  object_a :: "AnalysisObject option"

text \<open>
  The remote model. The prompt is a fixed text around \<^verbatim>\<open>formatForAI(context)\<close>, a
  function of the context, so the model's answer is taken as a function of the configured
  model name and the context: a value, or whatever the call throws.
\<close>

type_synonym analysis_model = "string \<Rightarrow> CodebaseContext \<Rightarrow> thrown + AnalysisResult"

definition analyzeCodebase ::
  "Config \<Rightarrow> FileSystem \<Rightarrow> analysis_model \<Rightarrow> string \<Rightarrow> error + Vulnerability list" where
  "analyzeCodebase config fs generateObject rootDir =
     (if rootDir = [] then
        Inl (ValidationError ''Root directory path is required and must be a string'')
      else if apiKey config = [] then
        Inl (ValidationError ''API key is required for AI analysis'')
      else if model config = [] then
        Inl (ValidationError ''Model configuration is required for AI analysis'')
      else
        (case tryAsync (throwing (getCondensedContext fs rootDir 15))
                ''Failed to build codebase context for AI analysis'' AIAnalysisError of
           Inl e \<Rightarrow> Inl e
         | Inr context \<Rightarrow>
             if length (files context) = 0 then
               Inl (AIAnalysisError ''No supported files found in the specified directory'' None)
             else
               (case tryAsync (generateObject (model config) context)
                       ''AI analysis request failed'' AIAnalysisError of
                  Inl e \<Rightarrow> Inl e
                | Inr result \<Rightarrow>
                    (case object_a result of
                       None \<Rightarrow> Inl (AIAnalysisError ''Invalid response format from AI analysis'' None)
                     | Some obj \<Rightarrow>
                         (case obj_vulnerabilities obj of
                            None \<Rightarrow>
                              Inl (AIAnalysisError ''Invalid response format from AI analysis'' None)
                          | Some vs \<Rightarrow> Inr vs)))))"

section \<open>Insight client (InsightGenerator.generateInsights)\<close>

record RiskAssessment =
  risk_overallRisk :: severity
  priorityAreas :: "string list"

record InsightObject =
  analysis :: "string option"
  riskAssessment :: "RiskAssessment option"

record InsightResult =
  object_i :: "InsightObject option"

text \<open>The prompt of the insight request is a function of the vulnerability list
  (\<^verbatim>\<open>buildInsightPrompt\<close>).\<close>

type_synonym insight_model = "string \<Rightarrow> Vulnerability list \<Rightarrow> thrown + InsightResult"

text \<open>
  The argument is typed as an array, so \<^verbatim>\<open>Array.isArray(vulnerabilities)\<close> holds.
  \<^verbatim>\<open>!result.object.analysis\<close> holds for a missing field and for the empty string.
\<close>

definition generateInsights ::
  "Config \<Rightarrow> insight_model \<Rightarrow> Vulnerability list \<Rightarrow> error + string list" where
  "generateInsights config generateObject vulns =
     (if apiKey config = [] then
        Inl (ValidationError ''API key is required for insight generation'')
      else if model config = [] then
        Inl (ValidationError ''Model configuration is required for insight generation'')
      else
        (case tryAsync (generateObject (model config) vulns)
                ''Failed to generate AI insights'' InsightGenerationError of
           Inl e \<Rightarrow> Inl e
         | Inr result \<Rightarrow>
             (case object_i result of
                None \<Rightarrow>
                  Inl (InsightGenerationError
                         ''Invalid response format from AI insight generation'' None)
              | Some obj \<Rightarrow>
                  (case analysis obj of
                     None \<Rightarrow>
                       Inl (InsightGenerationError ''AI response missing analysis paragraph'' None)
                   | Some a \<Rightarrow>
                       if a = [] then
                         Inl (InsightGenerationError
                                ''AI response missing analysis paragraph'' None)
                       else
                         (case riskAssessment obj of
                            None \<Rightarrow>
                              Inl (InsightGenerationError
                                     ''AI response missing risk assessment'' None)
                          | Some r \<Rightarrow> Inr [a])))))"

section \<open>Insight client, earlier class (InsightGenerator.generateInsights with InsightsSchema)\<close>

text \<open>
  The repository holds a second class \<^verbatim>\<open>InsightGenerator\<close>, whose response schema has
  the lists \<^verbatim>\<open>insights\<close> and \<^verbatim>\<open>recommendations\<close> in place of the paragraph
  \<^verbatim>\<open>analysis\<close>. Its \<^verbatim>\<open>generateInsights\<close> is written \<open>generateInsights_lists\<close> here. The
  fields of the risk assessment are optional in the model because the code tests them.
\<close>

record ListedRisk =
  lr_overallRisk :: "severity option"
  lr_priorityAreas :: "string list option"

record ListedObject =
  lo_insights :: "string list option"
  lo_recommendations :: "string list option"
  lo_riskAssessment :: "ListedRisk option"

record ListedResult =
  object_l :: "ListedObject option"

text \<open>\<^verbatim>\<open>xs.join(sep)\<close>.\<close>

fun join_with :: "string \<Rightarrow> string list \<Rightarrow> string" where
  "join_with sep [] = []"
| "join_with sep [s] = s"
| "join_with sep (s # rest) = s @ sep @ join_with sep rest"

text \<open>The line put in front for a high overall risk; it starts with the warning
  sign U+26A0 U+FE0F, given by its UTF-8 bytes.\<close>

definition high_risk_line :: string where
  "high_risk_line =
     [CHR 0xE2, CHR 0x9A, CHR 0xA0, CHR 0xEF, CHR 0xB8, CHR 0x8F]
     @ '' HIGH RISK: This codebase has significant security concerns that need immediate attention.''"

text \<open>\<^verbatim>\<open>unshift\<close> puts the line in front, \<^verbatim>\<open>push\<close> appends the priority
  areas; the three stages of the array \<^verbatim>\<open>allInsights\<close> are numbered.\<close>

definition generateInsights_lists ::
  "Config \<Rightarrow> (string \<Rightarrow> Vulnerability list \<Rightarrow> thrown + ListedResult) \<Rightarrow> Vulnerability list
     \<Rightarrow> error + string list" where
  "generateInsights_lists config generateObject vulns =
     (if apiKey config = [] then
        Inl (ValidationError ''API key is required for insight generation'')
      else if model config = [] then
        Inl (ValidationError ''Model configuration is required for insight generation'')
      else
        (case tryAsync (generateObject (model config) vulns)
                ''Failed to generate AI insights'' InsightGenerationError of
           Inl e \<Rightarrow> Inl e
         | Inr result \<Rightarrow>
             (case object_l result of
                None \<Rightarrow>
                  Inl (InsightGenerationError
                         ''Invalid response format from AI insight generation'' None)
              | Some obj \<Rightarrow>
                  (case lo_insights obj of
                     None \<Rightarrow> Inl (InsightGenerationError ''AI response missing insights array'' None)
                   | Some ins \<Rightarrow>
                       (case lo_recommendations obj of
                          None \<Rightarrow>
                            Inl (InsightGenerationError
                                   ''AI response missing recommendations array'' None)
                        | Some recs \<Rightarrow>
                            (case lo_riskAssessment obj of
                               None \<Rightarrow>
                                 Inl (InsightGenerationError
                                        ''AI response missing risk assessment'' None)
                             | Some ra \<Rightarrow>
                                 (let allInsights0 =
                                        ins @ map (\<lambda>rec. ''Recommendation: '' @ rec) recs;
                                      allInsights1 =
                                        (if lr_overallRisk ra = Some High
                                         then high_risk_line # allInsights0
                                         else allInsights0);
                                      allInsights2 =
                                        (case lr_priorityAreas ra of
                                           None \<Rightarrow> allInsights1
                                         | Some areas \<Rightarrow>
                                             if length areas > 0
                                             then allInsights1 @
                                                    [''Priority areas: '' @ join_with '', '' areas]
                                             else allInsights1)
                                  in if length allInsights2 = 0 then
                                       Inl (InsightGenerationError
                                              (''AI generated empty insights - this may indicate ''
                                               @ ''a problem with the analysis'') None)
                                     else Inr allInsights2)))))))"

section \<open>Notions used in the statements\<close>

text \<open>
  The definitions of this section are not functions of the program: they say in
  closed form what the loops above are shown to compute.
\<close>

text \<open>Every regular file of a directory tree, with its path, in the order of a
  depth-first walk that enters every directory it can list.\<close>

fun tree_files :: "path \<Rightarrow> dirent list \<Rightarrow> path list" where
  "tree_files cur [] = []"
| "tree_files cur (RegularFile name # entries) = path_join cur name # tree_files cur entries"
| "tree_files cur (Directory name listing # entries) =
     (case listing of None \<Rightarrow> [] | Some sub \<Rightarrow> tree_files (path_join cur name) sub)
       @ tree_files cur entries"
| "tree_files cur (OtherEntry name # entries) = tree_files cur entries"

text \<open>A directory name that the scan does not enter: it starts with a dot or is
  in the ignore-list.\<close>

definition excluded_dir :: "string list \<Rightarrow> string \<Rightarrow> bool" where
  "excluded_dir ignored name = (startsWith name ''.'' \<or> name \<in> set ignored)"

text \<open>The path \<open>p\<close>, below \<open>root\<close>, passes through a directory with an excluded
  name (the last segment of \<open>p\<close> is the file itself).\<close>

definition under_excluded :: "string list \<Rightarrow> path \<Rightarrow> path \<Rightarrow> bool" where
  "under_excluded ignored root p =
     list_ex (excluded_dir ignored) (butlast (drop (length root) p))"

text \<open>What discovery is to return: supported files that are not under an excluded
  directory.\<close>

definition discovered :: "string list \<Rightarrow> (string \<Rightarrow> bool) \<Rightarrow> path \<Rightarrow> path \<Rightarrow> bool" where
  "discovered ignored supported root p =
     (p \<noteq> [] \<and> supported (last p) \<and> \<not> under_excluded ignored root p)"

text \<open>The entry the read pass makes for a path, \<open>None\<close> when the file cannot be read or
  is longer than the cap.\<close>

definition accept :: "FileSystem \<Rightarrow> string \<Rightarrow> path \<Rightarrow> FileContext option" where
  "accept fs rootDir p =
     (case readFile fs p of
        Inl msg \<Rightarrow> None
      | Inr c \<Rightarrow>
          if length c > MAX_FILE_SIZE then None
          else Some \<lparr> path = path_relative [rootDir] p, content = c,
                      language = getLanguage p, size_f = length c \<rparr>)"

text \<open>The line the read pass writes for a path, \<open>None\<close> when the file can be
  read.\<close>

definition read_warning :: "FileSystem \<Rightarrow> path \<Rightarrow> string option" where
  "read_warning fs p =
     (case readFile fs p of
        Inl msg \<Rightarrow> Some (''Warning: Could not read file '' @ path_str p @ '': '' @ msg)
      | Inr c \<Rightarrow> None)"

text \<open>The file cannot be read, or its content is longer than the cap.\<close>

definition skipped :: "FileSystem \<Rightarrow> path \<Rightarrow> bool" where
  "skipped fs p =
     (case readFile fs p of Inl msg \<Rightarrow> True | Inr c \<Rightarrow> length c > MAX_FILE_SIZE)"

text \<open>The primary tier: the language tags \<^verbatim>\<open>typescript\<close> and \<^verbatim>\<open>javascript\<close>.\<close>

definition primary :: "FileContext \<Rightarrow> bool" where
  "primary f = (language f = ''typescript'' \<or> language f = ''javascript'')"

text \<open>The order of the condenser: the primary tier first, and within a tier the
  larger file first.\<close>

definition ranks_before :: "FileContext \<Rightarrow> FileContext \<Rightarrow> bool" where
  "ranks_before a b =
     ((primary a \<and> \<not> primary b) \<or> (primary a = primary b \<and> size_f b \<le> size_f a))"

section \<open>Example file systems, configurations and model answers\<close>

text \<open>
  Concrete inputs at which the theorems below are instantiated.
\<close>

text \<open>A directory with one 200 KiB \<^verbatim>\<open>.js\<close> file and one 2 KiB \<^verbatim>\<open>.py\<close> file.\<close>

definition scenarioB_fs :: FileSystem where
  "scenarioB_fs =
     \<lparr> readdir_root = (\<lambda>d. if d = ''proj''
                           then Some [RegularFile ''big.js'', RegularFile ''small.py'']
                           else None),
       readFile = (\<lambda>p. if p = [''proj'', ''big.js''] then Inr (replicate 204800 (CHR ''a''))
                        else if p = [''proj'', ''small.py''] then Inr (replicate 2048 (CHR ''b''))
                        else Inl ''ENOENT'') \<rparr>"

text \<open>Ten \<^verbatim>\<open>.ts\<close> files and ten \<^verbatim>\<open>.py\<close> files with their sizes; every
  \<^verbatim>\<open>.py\<close> file is larger than every \<^verbatim>\<open>.ts\<close> file.\<close>

definition scenarioC_table :: "(string \<times> nat) list" where
  "scenarioC_table =
     [(''a0.ts'', 11), (''p0.py'', 31), (''a1.ts'', 12), (''p1.py'', 32),
      (''a2.ts'', 13), (''p2.py'', 33), (''a3.ts'', 14), (''p3.py'', 34),
      (''a4.ts'', 15), (''p4.py'', 35), (''a5.ts'', 16), (''p5.py'', 36),
      (''a6.ts'', 17), (''p6.py'', 37), (''a7.ts'', 18), (''p7.py'', 38),
      (''a8.ts'', 19), (''p8.py'', 39), (''a9.ts'', 20), (''p9.py'', 40)]"

definition scenarioC_fs :: FileSystem where
  "scenarioC_fs =
     \<lparr> readdir_root = (\<lambda>d. if d = ''proj''
                           then Some (map RegularFile (map fst scenarioC_table))
                           else None),
       readFile = (\<lambda>p. case p of
                          [d, name] \<Rightarrow>
                            (case map_of scenarioC_table name of
                               None \<Rightarrow> Inl ''ENOENT''
                             | Some k \<Rightarrow> Inr (replicate k (CHR ''x'')))
                        | _ \<Rightarrow> Inl ''ENOENT'') \<rparr>"

definition scenarioC_files :: "FileContext list" where
  "scenarioC_files =
     map (\<lambda>(name, k). \<lparr> path = [name], content = replicate k (CHR ''x''),
                         language = (if endsWith name ''.ts'' then ''typescript'' else ''python''),
                         size_f = k \<rparr>) scenarioC_table"

definition scenarioC_full :: CodebaseContext where
  "scenarioC_full = \<lparr> files = scenarioC_files, summary = generateSummary scenarioC_files \<rparr>"

text \<open>A small project: three supported files to be found, an unsupported file, a
  dependency directory, a version-control directory that cannot be listed and an entry that is
  neither a file nor a directory.\<close>

definition mixed_entries :: "dirent list" where
  "mixed_entries =
     [RegularFile ''lib.py'', RegularFile ''app.ts'', RegularFile ''notes.txt'',
      Directory ''node_modules'' (Some [RegularFile ''dep.js'']),
      Directory ''src'' (Some [RegularFile ''main.ts'']),
      Directory ''.git'' None,
      OtherEntry ''link.js'']"

definition mixed_fs :: FileSystem where
  "mixed_fs =
     \<lparr> readdir_root = (\<lambda>d. if d = ''proj'' then Some mixed_entries else None),
       readFile = (\<lambda>p. if p = [''proj'', ''lib.py'']
                          then Inr (''import os'' @ [newline] @ ''print(os.name)'')
                        else if p = [''proj'', ''app.ts''] then Inr ''let x = 1''
                        else if p = [''proj'', ''src'', ''main.ts''] then Inr ''export const y = 22''
                        else Inl ''ENOENT'') \<rparr>"

definition mixed_files :: "FileContext list" where
  "mixed_files =
     [\<lparr> path = [''lib.py''], content = ''import os'' @ [newline] @ ''print(os.name)'',
        language = ''python'', size_f = 24 \<rparr>,
      \<lparr> path = [''app.ts''], content = ''let x = 1'', language = ''typescript'', size_f = 9 \<rparr>,
      \<lparr> path = [''src'', ''main.ts''], content = ''export const y = 22'',
        language = ''typescript'', size_f = 19 \<rparr>]"

definition mixed_full :: CodebaseContext where
  "mixed_full = \<lparr> files = mixed_files, summary = generateSummary mixed_files \<rparr>"

definition mixed_sorted :: "FileContext list" where
  "mixed_sorted = [mixed_files ! 2, mixed_files ! 1, mixed_files ! 0]"

definition mixed_condensed :: CodebaseContext where
  "mixed_condensed = \<lparr> files = mixed_sorted, summary = generateSummary mixed_sorted \<rparr>"

text \<open>No directory can be listed.\<close>

definition missing_fs :: FileSystem where
  "missing_fs = \<lparr> readdir_root = (\<lambda>d. None), readFile = (\<lambda>p. Inl ''ENOENT'') \<rparr>"

text \<open>Every directory is empty.\<close>

definition empty_fs :: FileSystem where
  "empty_fs = \<lparr> readdir_root = (\<lambda>d. Some []), readFile = (\<lambda>p. Inl ''ENOENT'') \<rparr>"

text \<open>A directory with one oversized file and one file that cannot be read.\<close>

definition unusable_fs :: FileSystem where
  "unusable_fs =
     \<lparr> readdir_root = (\<lambda>d. if d = ''proj''
                           then Some [RegularFile ''big.js'', RegularFile ''secret.py'']
                           else None),
       readFile = (\<lambda>p. if p = [''proj'', ''big.js''] then Inr (replicate 204800 (CHR ''a''))
                        else Inl ''EACCES'') \<rparr>"

definition demo_config :: Config where
  "demo_config = \<lparr> apiKey = ''sk-or-v1-demo'', model = ''demo/model'' \<rparr>"

text \<open>Answers of the analysis model: no issue found, no object, an object without
  the array, a transport error, and a thrown value that is not an \<^verbatim>\<open>Error\<close>.\<close>

definition clean_model :: analysis_model where
  "clean_model m ctx = Inr \<lparr> object_a = Some \<lparr> obj_vulnerabilities = Some [], obj_summary = None \<rparr> \<rparr>"

definition absent_model :: analysis_model where
  "absent_model m ctx = Inr \<lparr> object_a = None \<rparr>"

definition no_array_model :: analysis_model where
  "no_array_model m ctx =
     Inr \<lparr> object_a = Some \<lparr> obj_vulnerabilities = None, obj_summary = None \<rparr> \<rparr>"

definition failing_model :: analysis_model where
  "failing_model m ctx = Inl (ThrowError (Error ''fetch failed''))"

definition odd_model :: analysis_model where
  "odd_model m ctx = Inl (ThrowOther ''boom'')"

text \<open>An answer of the insight model with a narrative and a risk assessment.\<close>

definition narrative_model :: insight_model where
  "narrative_model m vs =
     Inr \<lparr> object_i = Some \<lparr> analysis = Some ''No issues were found.'',
                              riskAssessment = Some \<lparr> risk_overallRisk = Low,
                                                      priorityAreas = [] \<rparr> \<rparr> \<rparr>"

text \<open>An answer of the earlier insight model: one insight, one recommendation.\<close>

definition listing_model :: "string \<Rightarrow> Vulnerability list \<Rightarrow> thrown + ListedResult" where
  "listing_model m vs =
     Inr \<lparr> object_l = Some
             \<lparr> lo_insights = Some [''No issues were found.''],
               lo_recommendations = Some [''Keep dependencies current.''],
               lo_riskAssessment = Some \<lparr> lr_overallRisk = Some Low,
                                          lr_priorityAreas = Some [] \<rparr> \<rparr> \<rparr>"

section \<open>Properties of the Reporter\<close>

lemma severity_partition:
  "length (filter (\<lambda>v. severity v = High) vs)
     + length (filter (\<lambda>v. severity v = Medium) vs)
     + length (filter (\<lambda>v. severity v = Low) vs) = length vs"
proof (induction vs)
  case Nil
  show ?case by simp
next
  case (Cons v vs)
  then show ?case by (cases "severity v") simp_all
qed

text \<open>
  Claim C2. For every vulnerability sequence and every insight sequence the report of
  \<^verbatim>\<open>generateReport\<close> has \<open>total = length vulnerabilities = high + medium + low\<close>, and
  each count is the number of entries of the input sequence with that severity. The
  function has no other input from which a count could be taken: the model's own
  \<^verbatim>\<open>summary.totalIssues\<close> never reaches it.
\<close>

theorem generateReport_summary_partition:
  "total_n (rsummary (generateReport vs ins)) = length vs
   \<and> total_n (rsummary (generateReport vs ins))
       = high (rsummary (generateReport vs ins))
         + medium (rsummary (generateReport vs ins))
         + low (rsummary (generateReport vs ins))
   \<and> high (rsummary (generateReport vs ins)) = length (filter (\<lambda>v. severity v = High) vs)
   \<and> medium (rsummary (generateReport vs ins)) = length (filter (\<lambda>v. severity v = Medium) vs)
   \<and> low (rsummary (generateReport vs ins)) = length (filter (\<lambda>v. severity v = Low) vs)
   \<and> vulnerabilities (generateReport vs ins) = vs
   \<and> insights (generateReport vs ins) = ins"
  using severity_partition [of vs] by (simp add: generateReport_def)

section \<open>The summary loop\<close>

lemma sum_bump: "sum_list (map snd (bump k l)) = Suc (sum_list (map snd l))"
  by (induction l) auto

lemma summaryLoop_closed:
  "summaryLoop fs (langs, t, lf, ls) = (langs', t', lf', ls') \<Longrightarrow>
     sum_list (map snd langs') = sum_list (map snd langs) + length fs
     \<and> t' = t + (\<Sum>f\<leftarrow>fs. length (split_on newline (content f)))"
proof (induction fs arbitrary: langs t lf ls)
  case Nil
  then show ?case by simp
next
  case (Cons f fs)
  show ?case
  proof (cases "size_f f > ls")
    case True
    with Cons.prems have
      "summaryLoop fs (bump (language f) langs, t + length (split_on newline (content f)),
         path f, size_f f) = (langs', t', lf', ls')"
      by (simp add: Let_def)
    from Cons.IH [OF this] show ?thesis by (simp add: sum_bump)
  next
    case False
    with Cons.prems have
      "summaryLoop fs (bump (language f) langs, t + length (split_on newline (content f)),
         lf, ls) = (langs', t', lf', ls')"
      by (simp add: Let_def)
    from Cons.IH [OF this] show ?thesis by (simp add: sum_bump)
  qed
qed

lemma generateSummary_invariant:
  "totalFiles (generateSummary fs) = length fs
   \<and> totalLines (generateSummary fs) = (\<Sum>f\<leftarrow>fs. length (split_on newline (content f)))
   \<and> sum_list (map snd (languages (generateSummary fs))) = totalFiles (generateSummary fs)"
proof -
  obtain langs' t' lf' ls' where r: "summaryLoop fs ([], 0, [], 0) = (langs', t', lf', ls')"
    by (metis prod_cases4)
  from summaryLoop_closed [OF r] r show ?thesis
    by (simp add: generateSummary_def)
qed

text \<open>The line count of a text, \<^verbatim>\<open>content.split('\n').length\<close>, is one more than
  its number of newline characters.\<close>

lemma split_on_length: "length (split_on sep s) = Suc (length (filter (\<lambda>c. c = sep) s))"
  by (induction s) (auto split: list.splits)

section \<open>The scan in closed form\<close>

lemma tree_files_form:
  "p \<in> set (tree_files cur es) \<Longrightarrow> \<exists>rel. p = cur @ rel \<and> rel \<noteq> []"
  by (induction cur es rule: tree_files.induct)
     (auto simp: path_join_def split: option.splits)

lemma filter_under_excluded_dir:
  assumes "excluded_dir ign name"
  shows "filter (discovered ign okf cur) (tree_files (path_join cur name) sub) = []"
proof -
  have "\<not> discovered ign okf cur p" if "p \<in> set (tree_files (path_join cur name) sub)" for p
  proof -
    from tree_files_form [OF that] obtain rel where p: "p = cur @ [name] @ rel" "rel \<noteq> []"
      by (auto simp: path_join_def)
    then have "butlast (drop (length cur) p) = name # butlast rel" by simp
    with assms show ?thesis
      by (simp add: discovered_def under_excluded_def)
  qed
  then show ?thesis by (simp add: filter_empty_conv)
qed

lemma filter_under_kept_dir:
  assumes "\<not> excluded_dir ign name"
  shows "filter (discovered ign okf cur) (tree_files (path_join cur name) sub)
         = filter (discovered ign okf (path_join cur name)) (tree_files (path_join cur name) sub)"
proof (rule filter_cong [OF refl])
  fix p assume "p \<in> set (tree_files (path_join cur name) sub)"
  from tree_files_form [OF this] obtain rel where p: "p = cur @ [name] @ rel" "rel \<noteq> []"
    by (auto simp: path_join_def)
  then have "butlast (drop (length cur) p) = name # butlast rel"
    and "butlast (drop (length (path_join cur name)) p) = butlast rel"
    by (simp_all add: path_join_def)
  with assms show "discovered ign okf cur p = discovered ign okf (path_join cur name) p"
    by (simp add: discovered_def under_excluded_def)
qed

lemma discovered_direct:
  "discovered ign okf cur (path_join cur name) = okf name"
  by (simp add: discovered_def under_excluded_def path_join_def)

text \<open>A scan that returns has appended to \<^verbatim>\<open>files\<close> the discovered files of the
  tree, in the order of the walk.\<close>

lemma scan_closed:
  "scan ign okf cur es acc = Inr out \<Longrightarrow>
     out = acc @ filter (discovered ign okf cur) (tree_files cur es)"
proof (induction ign okf cur es acc arbitrary: out rule: scan.induct)
  case (1 ign okf cur acc)
  then show ?case by simp
next
  case (2 ign okf cur name es acc)
  then show ?case
    by (auto simp: Let_def discovered_direct split: if_splits)
next
  case (3 ign okf cur name listing es acc)
  show ?case
  proof (cases "excluded_dir ign name")
    case True
    with 3 show ?thesis
      by (auto simp: Let_def excluded_dir_def filter_under_excluded_dir split: option.splits)
  next
    case False
    then have ne: "\<not> startsWith name ''.'' \<and> name \<notin> set ign"
      by (simp add: excluded_dir_def)
    with "3.prems" obtain sub mid where
      l: "listing = Some sub" and
      m: "scan ign okf (path_join cur name) sub acc = Inr mid" and
      r: "scan ign okf cur es mid = Inr out"
      by (auto simp: Let_def split: option.splits sum.splits)
    from "3.IH"(1) [OF refl ne l m]
    have 1: "mid = acc @ filter (discovered ign okf (path_join cur name))
                           (tree_files (path_join cur name) sub)" .
    from "3.IH"(2) [OF refl ne l m r]
    have 2: "out = mid @ filter (discovered ign okf cur) (tree_files cur es)" .
    from 1 2 l filter_under_kept_dir [OF False, of okf cur sub] show ?thesis
      by simp
  qed
next
  case (4 ign okf cur name es acc)
  then show ?case by simp
qed

lemma scan_regular_files:
  "\<forall>name\<in>set names. okf name \<Longrightarrow>
     scan ign okf cur (map RegularFile names) acc = Inr (acc @ map (path_join cur) names)"
  by (induction names arbitrary: acc) (simp_all add: Let_def)

section \<open>The read pass in closed form\<close>

text \<open>The read loop never fails: it appends the entries of the accepted files
  and the warnings of the unreadable ones.\<close>

lemma readLoop_closed:
  "readLoop fs rootDir paths (acc, ws) =
     (acc @ List.map_filter (accept fs rootDir) paths,
      ws @ List.map_filter (read_warning fs) paths)"
proof (induction paths arbitrary: acc ws)
  case Nil
  show ?case by simp
next
  case (Cons p paths)
  show ?case
  proof (cases "readFile fs p")
    case (Inl msg)
    then show ?thesis
      by (simp add: Cons.IH accept_def read_warning_def)
  next
    case (Inr c)
    then show ?thesis
      by (simp add: Cons.IH accept_def read_warning_def Let_def)
  qed
qed

lemma buildContext_closed:
  assumes "rootDir \<noteq> []" and "scanDirectory fs rootDir = Inr paths"
  shows "buildContext fs rootDir =
           (if paths = [] then
              Inl (ContextBuildError (''No supported files found in directory: '' @ rootDir) None)
            else if List.map_filter (accept fs rootDir) paths = [] then
              Inl (ContextBuildError
                     ''No readable files found or all files exceed maximum size limit'' None)
            else Inr \<lparr> files = List.map_filter (accept fs rootDir) paths,
                       summary = generateSummary (List.map_filter (accept fs rootDir) paths) \<rparr>)"
  using assms by (simp add: buildContext_def readLoop_closed)

lemma buildContext_files_nonempty:
  "buildContext fs rootDir = Inr ctx \<Longrightarrow> files ctx \<noteq> [] \<and> summary ctx = generateSummary (files ctx)"
  by (auto simp: buildContext_def readLoop_closed split: if_splits sum.splits)

lemma buildContext_Inr_scan:
  "buildContext fs rootDir = Inr ctx \<Longrightarrow>
     \<exists>paths. scanDirectory fs rootDir = Inr paths \<and> rootDir \<noteq> []
        \<and> files ctx = List.map_filter (accept fs rootDir) paths"
  by (auto simp: buildContext_def readLoop_closed split: if_splits sum.splits)

lemma accept_None: "(accept fs rootDir p = None) = skipped fs p"
  by (simp add: accept_def skipped_def split: sum.splits)

lemma accept_path: "accept fs rootDir p = Some f \<Longrightarrow> path f = path_relative [rootDir] p"
  by (auto simp: accept_def split: sum.splits if_splits)

lemma accept_language: "accept fs rootDir p = Some f \<Longrightarrow> language f = getLanguage p"
  by (auto simp: accept_def split: sum.splits if_splits)

lemma map_filter_empty: "(List.map_filter f xs = []) = (\<forall>x\<in>set xs. f x = None)"
  by (induction xs) (auto split: option.splits)

lemma set_map_filter: "set (List.map_filter f xs) = {y. \<exists>x\<in>set xs. f x = Some y}"
  by (induction xs) (auto split: option.splits)

lemma length_map_filter:
  "length (List.map_filter f xs) = length (filter (\<lambda>x. f x \<noteq> None) xs)"
  by (induction xs) (auto split: option.splits)

lemma map_path_accept:
  "map path (List.map_filter (accept fs rootDir) paths)
     = map (path_relative [rootDir]) (filter (\<lambda>p. \<not> skipped fs p) paths)"
proof (induction paths)
  case Nil
  show ?case by simp
next
  case (Cons p paths)
  show ?case
  proof (cases "accept fs rootDir p")
    case None
    with Cons accept_None [of fs rootDir p] show ?thesis by simp
  next
    case (Some f)
    then have "\<not> skipped fs p" using accept_None [of fs rootDir p] by simp
    with Some Cons accept_path [OF Some] show ?thesis by simp
  qed
qed

section \<open>The sort of the condenser\<close>

lemma compareFiles_ranks: "(compareFiles a b \<le> 0) = ranks_before a b"
  by (auto simp: compareFiles_def ranks_before_def primary_def Let_def)

lemma ranks_before_total: "ranks_before a b \<or> ranks_before b a"
  by (auto simp: ranks_before_def)

lemma ranks_before_trans: "ranks_before a b \<Longrightarrow> ranks_before b c \<Longrightarrow> ranks_before a c"
  by (auto simp: ranks_before_def)

lemma mset_insert_cmp: "mset (insert_cmp cmp x ys) = add_mset x (mset ys)"
  by (induction ys) auto

lemma mset_sort_cmp: "mset (sort_cmp cmp xs) = mset xs"
  by (induction xs) (auto simp: sort_cmp_def mset_insert_cmp)

lemma set_insert_cmp: "set (insert_cmp cmp x ys) = insert x (set ys)"
  by (induction ys) auto

lemma length_sort_cmp: "length (sort_cmp cmp xs) = length xs"
  using mset_sort_cmp [of cmp xs] by (metis size_mset)

lemma set_sort_cmp: "set (sort_cmp cmp xs) = set xs"
  using mset_sort_cmp [of cmp xs] by (metis set_mset_mset)

lemma sorted_insert_files:
  "sorted_wrt ranks_before ys \<Longrightarrow> sorted_wrt ranks_before (insert_cmp compareFiles x ys)"
proof (induction ys)
  case Nil
  show ?case by simp
next
  case (Cons y ys)
  show ?case
  proof (cases "compareFiles x y \<le> 0")
    case True
    then have xy: "ranks_before x y" by (simp add: compareFiles_ranks)
    with Cons.prems have "\<forall>z\<in>set ys. ranks_before x z"
      by (auto intro: ranks_before_trans)
    with True xy Cons.prems show ?thesis by simp
  next
    case False
    then have "ranks_before y x"
      using ranks_before_total [of x y] by (simp add: compareFiles_ranks)
    with False Cons show ?thesis
      by (auto simp: set_insert_cmp)
  qed
qed

lemma sorted_sort_files: "sorted_wrt ranks_before (sort_cmp compareFiles xs)"
  by (induction xs) (simp_all add: sort_cmp_def sorted_insert_files)

lemma insert_cmp_front:
  "\<forall>y\<in>set ys. cmp x y \<le> 0 \<Longrightarrow> insert_cmp cmp x ys = x # ys"
  by (cases ys) auto

text \<open>Sorting a list that is already in order leaves it as it is.\<close>

lemma sort_files_sorted_id:
  "sorted_wrt ranks_before xs \<Longrightarrow> sort_cmp compareFiles xs = xs"
proof (induction xs)
  case Nil
  show ?case by (simp add: sort_cmp_def)
next
  case (Cons x xs)
  then have "sort_cmp compareFiles xs = xs" by simp
  moreover from Cons.prems have "\<forall>y\<in>set xs. compareFiles x y \<le> 0"
    by (simp add: compareFiles_ranks)
  ultimately show ?case
    using insert_cmp_front [of xs compareFiles x] by (simp add: sort_cmp_def)
qed

lemma slice0_nonneg: "0 \<le> n \<Longrightarrow> slice0 xs n = take (nat n) xs"
  by (auto simp: slice0_def Let_def min_def)

lemma slice0_subset: "set (slice0 xs n) \<subseteq> set xs"
  by (auto simp: slice0_def Let_def dest: in_set_takeD)

lemma sorted_wrt_take: "sorted_wrt R xs \<Longrightarrow> sorted_wrt R (take k xs)"
  by (metis append_take_drop_id sorted_wrt_append)

lemma insert_primary:
  assumes "primary x" "\<forall>q\<in>set Q. \<not> primary q"
  shows "insert_cmp compareFiles x (P @ Q) = insert_cmp compareFiles x P @ Q"
proof (induction P)
  case Nil
  from assms show ?case
    by (cases Q) (auto simp: compareFiles_ranks ranks_before_def)
next
  case (Cons p P)
  then show ?case by simp
qed

lemma insert_secondary:
  assumes "\<not> primary x" "\<forall>p\<in>set P. primary p"
  shows "insert_cmp compareFiles x (P @ Q) = P @ insert_cmp compareFiles x Q"
  using assms by (induction P) (auto simp: compareFiles_ranks ranks_before_def)

text \<open>The sorted list is the sorted primary tier followed by the sorted rest.\<close>

lemma sort_files_tiers:
  "sort_cmp compareFiles xs =
     sort_cmp compareFiles (filter primary xs)
       @ sort_cmp compareFiles (filter (\<lambda>f. \<not> primary f) xs)"
proof (induction xs)
  case Nil
  show ?case by (simp add: sort_cmp_def)
next
  case (Cons x xs)
  let ?P = "sort_cmp compareFiles (filter primary xs)"
  let ?Q = "sort_cmp compareFiles (filter (\<lambda>f. \<not> primary f) xs)"
  have P: "\<forall>p\<in>set ?P. primary p" and Q: "\<forall>q\<in>set ?Q. \<not> primary q"
    by (simp_all add: set_sort_cmp)
  have step: "sort_cmp compareFiles (x # xs) = insert_cmp compareFiles x (?P @ ?Q)"
    using Cons.IH by (simp add: sort_cmp_def)
  show ?case
  proof (cases "primary x")
    case True
    with step insert_primary [OF True Q, of ?P] show ?thesis
      by (simp add: sort_cmp_def)
  next
    case False
    with step insert_secondary [OF False P, of ?Q] show ?thesis
      by (simp add: sort_cmp_def)
  qed
qed

lemma filter_all_length:
  "length (filter P xs) = length xs \<Longrightarrow> \<forall>x\<in>set xs. P x"
  by (metis length_filter_less linorder_not_less order_refl)

lemma scenario_tiers:
  assumes ts: "length (filter (\<lambda>f. language f = ''typescript'') xs) = 10"
    and py: "length (filter (\<lambda>f. language f = ''python'') xs) = 10"
    and len: "length xs = 20"
  shows "filter primary xs = filter (\<lambda>f. language f = ''typescript'') xs"
    and "filter (\<lambda>f. \<not> primary f) xs = filter (\<lambda>f. language f = ''python'') xs"
proof -
  let ?T = "\<lambda>f. language f = ''typescript''" and ?P = "\<lambda>f. language f = ''python''"
  have "length (filter (\<lambda>f. ?T f \<or> ?P f) xs) = length (filter ?T xs) + length (filter ?P xs)"
    by (induction xs) auto
  with ts py len have "length (filter (\<lambda>f. ?T f \<or> ?P f) xs) = length xs" by simp
  then have all: "\<forall>f\<in>set xs. ?T f \<or> ?P f" by (rule filter_all_length)
  show "filter primary xs = filter ?T xs"
    by (rule filter_cong [OF refl]) (use all in \<open>auto simp: primary_def\<close>)
  show "filter (\<lambda>f. \<not> primary f) xs = filter ?P xs"
    by (rule filter_cong [OF refl]) (use all in \<open>auto simp: primary_def\<close>)
qed

lemma getCondensed_closed:
  "buildContext fs rootDir = Inr full \<Longrightarrow>
     getCondensedContext fs rootDir n =
       Inr \<lparr> files = slice0 (sort_cmp compareFiles (files full)) n,
             summary = generateSummary (slice0 (sort_cmp compareFiles (files full)) n) \<rparr>"
  by (simp add: getCondensedContext_def Let_def)

lemma getCondensed_Inr:
  "getCondensedContext fs rootDir n = Inr out \<Longrightarrow>
     \<exists>full. buildContext fs rootDir = Inr full
        \<and> files out = slice0 (sort_cmp compareFiles (files full)) n
        \<and> summary out = generateSummary (files out)"
  by (auto simp: getCondensedContext_def Let_def split: sum.splits)

lemma condensed15_nonempty:
  "getCondensedContext fs rootDir 15 = Inr ctx \<Longrightarrow> files ctx \<noteq> []"
proof -
  assume "getCondensedContext fs rootDir 15 = Inr ctx"
  from getCondensed_Inr [OF this] obtain full where
    b: "buildContext fs rootDir = Inr full" and
    f: "files ctx = slice0 (sort_cmp compareFiles (files full)) 15"
    by blast
  from buildContext_files_nonempty [OF b] have "sort_cmp compareFiles (files full) \<noteq> []"
    using length_sort_cmp [of compareFiles "files full"] by auto
  with f show ?thesis by (simp add: slice0_nonneg)
qed

section \<open>The analysis client in closed form\<close>

lemma analyze_Inr:
  "analyzeCodebase config fs gen rootDir = Inr vs \<Longrightarrow>
     \<exists>ctx r obj. getCondensedContext fs rootDir 15 = Inr ctx
        \<and> gen (model config) ctx = Inr r \<and> object_a r = Some obj
        \<and> obj_vulnerabilities obj = Some vs"
  by (auto simp: analyzeCodebase_def tryAsync_def throwing_def
           split: if_splits sum.splits option.splits thrown.splits)

lemma analyze_closed:
  assumes "rootDir \<noteq> []" and "apiKey config \<noteq> []" and "model config \<noteq> []"
    and ctx: "getCondensedContext fs rootDir 15 = Inr ctx"
  shows "analyzeCodebase config fs gen rootDir =
           (case tryAsync (gen (model config) ctx) ''AI analysis request failed'' AIAnalysisError of
              Inl e \<Rightarrow> Inl e
            | Inr result \<Rightarrow>
                (case object_a result of
                   None \<Rightarrow> Inl (AIAnalysisError ''Invalid response format from AI analysis'' None)
                 | Some obj \<Rightarrow>
                     (case obj_vulnerabilities obj of
                        None \<Rightarrow>
                          Inl (AIAnalysisError ''Invalid response format from AI analysis'' None)
                      | Some vs \<Rightarrow> Inr vs)))"
  using assms condensed15_nonempty [OF ctx]
  by (simp add: analyzeCodebase_def tryAsync_def throwing_def)

section \<open>Language tags\<close>

lemma table_values_nonempty:
  "map_of SUPPORTED_EXTENSIONS ext = Some lang \<Longrightarrow> lang \<noteq> [] \<and> lang \<noteq> ''text''"
proof -
  assume "map_of SUPPORTED_EXTENSIONS ext = Some lang"
  then have "(ext, lang) \<in> set SUPPORTED_EXTENSIONS" by (rule map_of_SomeD)
  then show ?thesis unfolding SUPPORTED_EXTENSIONS_def by auto
qed

lemma scanned_supported:
  assumes "scanDirectory fs rootDir = Inr paths" and "p \<in> set paths"
  shows "p \<noteq> [] \<and> isSupportedFile (last p)"
proof -
  from assms(1) obtain entries where
    "scan IGNORED_DIRS isSupportedFile [rootDir] entries [] = Inr paths"
    by (auto simp: scanDirectory_def scan_from_def split: option.splits)
  from scan_closed [OF this] assms(2) show ?thesis
    by (simp add: discovered_def)
qed

lemma supported_language:
  assumes "p \<noteq> []" and "isSupportedFile (last p)"
  shows "map_of SUPPORTED_EXTENSIONS (toLowerCase (path_extname p)) = Some (getLanguage p)"
proof -
  from assms obtain lang where
    l: "map_of SUPPORTED_EXTENSIONS (toLowerCase (path_extname p)) = Some lang"
    by (auto simp: isSupportedFile_def path_extname_def Let_def)
  with table_values_nonempty [OF l] show ?thesis
    by (simp add: getLanguage_def Let_def)
qed

section \<open>The insight clients in closed form\<close>

lemma generateInsights_narrative:
  "(\<forall>out. generateInsights config gen vs = Inr out \<longrightarrow>
       (\<exists>a. out = [a] \<and> a \<noteq> []
           \<and> (\<exists>r obj. gen (model config) vs = Inr r \<and> object_i r = Some obj
                  \<and> analysis obj = Some a)))
   \<and> (\<forall>r obj a ra. apiKey config \<noteq> [] \<and> model config \<noteq> []
         \<and> gen (model config) vs = Inr r \<and> object_i r = Some obj
         \<and> analysis obj = Some a \<and> a \<noteq> [] \<and> riskAssessment obj = Some ra \<longrightarrow>
         generateInsights config gen vs = Inr [a])
   \<and> generateInsights config gen vs = generateInsights config (\<lambda>m x. gen m vs) []"
  by (auto simp: generateInsights_def tryAsync_def
           split: sum.splits option.splits thrown.splits if_splits)

lemma generateInsights_lists_Inr:
  assumes h: "generateInsights_lists config gen vs = Inr out"
  shows "out \<noteq> []
       \<and> (\<exists>r obj ins recs ra. gen (model config) vs = Inr r \<and> object_l r = Some obj
             \<and> lo_insights obj = Some ins \<and> lo_recommendations obj = Some recs
             \<and> lo_riskAssessment obj = Some ra
             \<and> out = (if lr_overallRisk ra = Some High then [high_risk_line] else [])
                     @ ins @ map (\<lambda>rec. ''Recommendation: '' @ rec) recs
                     @ (case lr_priorityAreas ra of
                          None \<Rightarrow> []
                        | Some areas \<Rightarrow>
                            if areas = [] then []
                            else [''Priority areas: '' @ join_with '', '' areas]))"
proof -
  from h have k: "apiKey config \<noteq> []" "model config \<noteq> []"
    by (auto simp: generateInsights_lists_def split: if_splits)
  from h k obtain r where r: "gen (model config) vs = Inr r"
    by (cases "gen (model config) vs")
       (auto simp: generateInsights_lists_def tryAsync_def split: thrown.splits)
  from h k r obtain obj where obj: "object_l r = Some obj"
    by (cases "object_l r") (auto simp: generateInsights_lists_def tryAsync_def)
  from h k r obj obtain ins where ins: "lo_insights obj = Some ins"
    by (cases "lo_insights obj") (auto simp: generateInsights_lists_def tryAsync_def)
  from h k r obj ins obtain recs where recs: "lo_recommendations obj = Some recs"
    by (cases "lo_recommendations obj") (auto simp: generateInsights_lists_def tryAsync_def)
  from h k r obj ins recs obtain ra where ra: "lo_riskAssessment obj = Some ra"
    by (cases "lo_riskAssessment obj") (auto simp: generateInsights_lists_def tryAsync_def)
  let ?all = "(if lr_overallRisk ra = Some High then [high_risk_line] else [])
                @ ins @ map (\<lambda>rec. ''Recommendation: '' @ rec) recs
                @ (case lr_priorityAreas ra of
                     None \<Rightarrow> []
                   | Some areas \<Rightarrow>
                       if areas = [] then []
                       else [''Priority areas: '' @ join_with '', '' areas])"
  from k r obj ins recs ra have
    "generateInsights_lists config gen vs =
       (if ?all = [] then
          Inl (InsightGenerationError
                 (''AI generated empty insights - this may indicate ''
                  @ ''a problem with the analysis'') None)
        else Inr ?all)"
    by (cases "lr_priorityAreas ra"; cases "lr_overallRisk ra = Some High")
       (auto simp: generateInsights_lists_def tryAsync_def Let_def)
  with h have "?all \<noteq> []" and "out = ?all"
    by (simp_all split: if_splits)
  with r obj ins recs ra show ?thesis by blast
qed

lemma generateInsights_lists_prompt_only:
  "generateInsights_lists config gen vs = generateInsights_lists config (\<lambda>m x. gen m vs) []"
  by (simp add: generateInsights_lists_def)

section \<open>The examples evaluated\<close>

lemma supported_examples:
  "isSupportedFile ''big.js''" "isSupportedFile ''small.py''" "isSupportedFile ''app.ts''"
  "\<not> isSupportedFile ''notes.txt''"
  by (simp_all add: isSupportedFile_def extname_def toLowerCase_def toLowerChar_def
        SUPPORTED_EXTENSIONS_def)

lemma scenarioB_scan:
  "scanDirectory scenarioB_fs ''proj'' = Inr [[''proj'', ''big.js''], [''proj'', ''small.py'']]"
  by (simp add: scanDirectory_def scan_from_def scenarioB_fs_def path_join_def supported_examples)

lemma scenarioB_skipped:
  "skipped scenarioB_fs [''proj'', ''big.js'']" "\<not> skipped scenarioB_fs [''proj'', ''small.py'']"
  by (simp_all add: skipped_def scenarioB_fs_def MAX_FILE_SIZE_def)

lemma scenarioC_supported: "\<forall>name\<in>set (map fst scenarioC_table). isSupportedFile name"
  by (simp add: scenarioC_table_def isSupportedFile_def extname_def toLowerCase_def
        toLowerChar_def SUPPORTED_EXTENSIONS_def)

lemma scenarioC_scan:
  "scanDirectory scenarioC_fs ''proj'' = Inr (map (path_join [''proj'']) (map fst scenarioC_table))"
  using scan_regular_files [OF scenarioC_supported, of IGNORED_DIRS "[''proj'']" "[]"]
  by (simp add: scanDirectory_def scan_from_def scenarioC_fs_def)

lemma scenarioC_accept:
  "List.map_filter (accept scenarioC_fs ''proj'') (map (path_join [''proj'']) (map fst scenarioC_table))
     = scenarioC_files"
  by (simp add: accept_def scenarioC_fs_def scenarioC_table_def scenarioC_files_def
        getLanguage_def path_extname_def extname_def toLowerCase_def toLowerChar_def
        SUPPORTED_EXTENSIONS_def MAX_FILE_SIZE_def path_relative_def path_join_def endsWith_def)

lemma scenarioC_build: "buildContext scenarioC_fs ''proj'' = Inr scenarioC_full"
proof -
  have "scenarioC_files \<noteq> []" by (simp add: scenarioC_files_def scenarioC_table_def)
  moreover have "map (path_join [''proj'']) (map fst scenarioC_table) \<noteq> []"
    by (simp add: scenarioC_table_def)
  ultimately show ?thesis
    using buildContext_closed [OF _ scenarioC_scan] scenarioC_accept
    by (simp add: scenarioC_full_def)
qed

lemma scenarioC_counts:
  "length (filter (\<lambda>f. language f = ''typescript'') (files scenarioC_full)) = 10"
  "length (filter (\<lambda>f. language f = ''python'') (files scenarioC_full)) = 10"
  "length (files scenarioC_full) = 20"
  by (simp_all add: scenarioC_full_def scenarioC_files_def scenarioC_table_def endsWith_def)

lemma scenarioC_expected:
  "map path (sort_cmp compareFiles (filter (\<lambda>f. language f = ''typescript'') (files scenarioC_full))
             @ take 5 (sort_cmp compareFiles
                         (filter (\<lambda>f. language f = ''python'') (files scenarioC_full))))
   = [[''a9.ts''], [''a8.ts''], [''a7.ts''], [''a6.ts''], [''a5.ts''],
      [''a4.ts''], [''a3.ts''], [''a2.ts''], [''a1.ts''], [''a0.ts''],
      [''p9.py''], [''p8.py''], [''p7.py''], [''p6.py''], [''p5.py'']]"
  by (simp add: scenarioC_full_def scenarioC_files_def scenarioC_table_def endsWith_def
        sort_cmp_def compareFiles_def)

lemma scenarioC_analyze: "analyzeCodebase demo_config scenarioC_fs clean_model ''proj'' = Inr []"
  using analyze_closed [OF _ _ _ getCondensed_closed [OF scenarioC_build, of 15],
          of demo_config clean_model]
  by (simp add: demo_config_def clean_model_def tryAsync_def)

lemma mixed_supported:
  "isSupportedFile ''lib.py''" "isSupportedFile ''app.ts''" "\<not> isSupportedFile ''notes.txt''"
  "isSupportedFile ''main.ts''" "isSupportedFile ''dep.js''"
  by (simp_all add: isSupportedFile_def extname_def toLowerCase_def toLowerChar_def
        SUPPORTED_EXTENSIONS_def)

lemma mixed_scan:
  "scanDirectory mixed_fs ''proj''
     = Inr [[''proj'', ''lib.py''], [''proj'', ''app.ts''], [''proj'', ''src'', ''main.ts'']]"
  by (simp add: scanDirectory_def scan_from_def mixed_fs_def mixed_entries_def path_join_def
        mixed_supported startsWith_def IGNORED_DIRS_def)

lemma mixed_scan_FileScanner:
  "FileScanner_scanDirectory mixed_fs ''proj''
     = Inr [[''proj'', ''lib.py''], [''proj'', ''app.ts''], [''proj'', ''src'', ''main.ts'']]"
  by (simp add: FileScanner_scanDirectory_def scan_from_def mixed_fs_def mixed_entries_def
        path_join_def startsWith_def FileScanner_IGNORED_DIRS_def FileScanner_isSupportedFile_def
        FileScanner_SUPPORTED_EXTENSIONS_def endsWith_def)

lemma mixed_accept:
  "List.map_filter (accept mixed_fs ''proj'')
     [[''proj'', ''lib.py''], [''proj'', ''app.ts''], [''proj'', ''src'', ''main.ts'']]
   = mixed_files"
  by (simp add: accept_def mixed_fs_def mixed_files_def getLanguage_def path_extname_def
        extname_def toLowerCase_def toLowerChar_def SUPPORTED_EXTENSIONS_def MAX_FILE_SIZE_def
        path_relative_def)

lemma mixed_build: "buildContext mixed_fs ''proj'' = Inr mixed_full"
  using buildContext_closed [OF _ mixed_scan] mixed_accept
  by (simp add: mixed_full_def mixed_files_def)

lemma mixed_sort: "slice0 (sort_cmp compareFiles mixed_files) 15 = mixed_sorted"
  by (simp add: mixed_files_def mixed_sorted_def sort_cmp_def compareFiles_def slice0_def)

lemma mixed_condense: "getCondensedContext mixed_fs ''proj'' 15 = Inr mixed_condensed"
  using getCondensed_closed [OF mixed_build, of 15]
  by (simp add: mixed_full_def mixed_sort mixed_condensed_def)

lemma mixed_tree:
  "tree_files [''proj''] mixed_entries
     = [[''proj'', ''lib.py''], [''proj'', ''app.ts''], [''proj'', ''notes.txt''],
        [''proj'', ''node_modules'', ''dep.js''], [''proj'', ''src'', ''main.ts'']]"
  by (simp add: mixed_entries_def path_join_def)

lemma unusable_scan:
  "scanDirectory unusable_fs ''proj'' = Inr [[''proj'', ''big.js''], [''proj'', ''secret.py'']]"
  by (simp add: scanDirectory_def scan_from_def unusable_fs_def path_join_def
        isSupportedFile_def extname_def toLowerCase_def toLowerChar_def SUPPORTED_EXTENSIONS_def)

lemma unusable_skipped:
  "skipped unusable_fs [''proj'', ''big.js'']" "skipped unusable_fs [''proj'', ''secret.py'']"
  by (simp_all add: skipped_def unusable_fs_def MAX_FILE_SIZE_def)

section \<open>Context condenser: selection and order\<close>

text \<open>
  Claim C1. For a context that \<^verbatim>\<open>buildContext\<close> has built and a maximum file count
  \<open>n\<close> (a count: \<open>0 \<le> n\<close>; \<^verbatim>\<open>slice\<close> reads a negative \<open>n\<close> from the end of the
  array), \<^verbatim>\<open>getCondensedContext\<close> returns exactly \<open>min n (number of files)\<close> files
  of the context, in the order \<open>ranks_before\<close>: files tagged \<^verbatim>\<open>typescript\<close> or
  \<^verbatim>\<open>javascript\<close> before all others, and within a tier larger content before smaller.
  The files left out rank after every file returned. A successful \<^verbatim>\<open>analyzeCodebase\<close>
  has passed to the model the context condensed with \<open>n = 15\<close>. In particular, with ten
  \<^verbatim>\<open>typescript\<close> files and ten \<^verbatim>\<open>python\<close> files and \<open>n = 15\<close>, the output is the ten
  \<^verbatim>\<open>typescript\<close> files followed by the five largest \<^verbatim>\<open>python\<close> files.
\<close>

theorem condensed_selection:
  assumes full: "buildContext fs rootDir = Inr full" and n: "0 \<le> n"
  shows "\<exists>out. getCondensedContext fs rootDir n = Inr out
          \<and> length (files out) = min (nat n) (length (files full))
          \<and> mset (files out) \<subseteq># mset (files full)
          \<and> sorted_wrt ranks_before (files out)
          \<and> (\<forall>f\<in>set (files out). \<forall>g\<in>#mset (files full) - mset (files out). ranks_before f g)
          \<and> (\<forall>config gen vs. analyzeCodebase config fs gen rootDir = Inr vs \<longrightarrow>
                (\<exists>ctx r obj. getCondensedContext fs rootDir 15 = Inr ctx
                    \<and> gen (model config) ctx = Inr r \<and> object_a r = Some obj
                    \<and> obj_vulnerabilities obj = Some vs))
          \<and> (n = 15
               \<and> length (filter (\<lambda>f. language f = ''typescript'') (files full)) = 10
               \<and> length (filter (\<lambda>f. language f = ''python'') (files full)) = 10
               \<and> length (files full) = 20 \<longrightarrow>
                files out =
                  sort_cmp compareFiles (filter (\<lambda>f. language f = ''typescript'') (files full))
                  @ take 5 (sort_cmp compareFiles
                              (filter (\<lambda>f. language f = ''python'') (files full))))"
proof -
  let ?s = "sort_cmp compareFiles (files full)"
  let ?o = "take (nat n) ?s"
  let ?out = "\<lparr> files = ?o, summary = generateSummary ?o \<rparr>"
  have g: "getCondensedContext fs rootDir n = Inr ?out"
    using getCondensed_closed [OF full, of n] n by (simp add: slice0_nonneg)
  have l: "length ?o = min (nat n) (length (files full))"
    by (simp add: length_sort_cmp min.commute)
  have split: "mset (files full) = mset ?o + mset (drop (nat n) ?s)"
    by (metis append_take_drop_id mset_append mset_sort_cmp)
  then have sub: "mset ?o \<subseteq># mset (files full)" by simp
  have so: "sorted_wrt ranks_before ?o"
    by (rule sorted_wrt_take) (rule sorted_sort_files)
  have "sorted_wrt ranks_before (?o @ drop (nat n) ?s)"
    by (simp add: sorted_sort_files)
  then have "\<forall>f\<in>set ?o. \<forall>g\<in>set (drop (nat n) ?s). ranks_before f g"
    by (simp only: sorted_wrt_append) blast
  moreover from split have "mset (files full) - mset ?o = mset (drop (nat n) ?s)" by simp
  ultimately have top: "\<forall>f\<in>set ?o. \<forall>g\<in>#mset (files full) - mset ?o. ranks_before f g"
    by simp
  have sc: "?o = sort_cmp compareFiles (filter (\<lambda>f. language f = ''typescript'') (files full))
                  @ take 5 (sort_cmp compareFiles
                              (filter (\<lambda>f. language f = ''python'') (files full)))"
    if h: "n = 15"
       "length (filter (\<lambda>f. language f = ''typescript'') (files full)) = 10"
       "length (filter (\<lambda>f. language f = ''python'') (files full)) = 10"
       "length (files full) = 20"
  proof -
    from scenario_tiers [OF h(2,3,4)] sort_files_tiers [of "files full"]
    have "?s = sort_cmp compareFiles (filter (\<lambda>f. language f = ''typescript'') (files full))
                @ sort_cmp compareFiles (filter (\<lambda>f. language f = ''python'') (files full))"
      by simp
    with h(1,2) show ?thesis by (simp add: length_sort_cmp)
  qed
  show ?thesis
  proof (intro exI [of _ ?out] conjI)
    show "getCondensedContext fs rootDir n = Inr ?out" by (rule g)
    show "length (files ?out) = min (nat n) (length (files full))" using l by simp
    show "mset (files ?out) \<subseteq># mset (files full)" using sub by simp
    show "sorted_wrt ranks_before (files ?out)" using so by simp
    show "\<forall>f\<in>set (files ?out). \<forall>g\<in>#mset (files full) - mset (files ?out). ranks_before f g"
      using top by simp
    show "\<forall>config gen vs. analyzeCodebase config fs gen rootDir = Inr vs \<longrightarrow>
            (\<exists>ctx r obj. getCondensedContext fs rootDir 15 = Inr ctx
                \<and> gen (model config) ctx = Inr r \<and> object_a r = Some obj
                \<and> obj_vulnerabilities obj = Some vs)"
      using analyze_Inr by blast
    show "n = 15
            \<and> length (filter (\<lambda>f. language f = ''typescript'') (files full)) = 10
            \<and> length (filter (\<lambda>f. language f = ''python'') (files full)) = 10
            \<and> length (files full) = 20 \<longrightarrow>
          files ?out =
            sort_cmp compareFiles (filter (\<lambda>f. language f = ''typescript'') (files full))
            @ take 5 (sort_cmp compareFiles
                        (filter (\<lambda>f. language f = ''python'') (files full)))"
      using sc by simp
  qed
qed

text \<open>Scenario C at ten \<^verbatim>\<open>.ts\<close> and ten \<^verbatim>\<open>.py\<close> files, every \<^verbatim>\<open>.py\<close> file
  larger than every \<^verbatim>\<open>.ts\<close> file: the ten \<^verbatim>\<open>.ts\<close> files come out first, then the five
  largest \<^verbatim>\<open>.py\<close> files.\<close>

theorem condensed_selection_witness:
  "buildContext scenarioC_fs ''proj'' = Inr scenarioC_full \<and> (0::int) \<le> 15
   \<and> length (filter (\<lambda>f. language f = ''typescript'') (files scenarioC_full)) = 10
   \<and> length (filter (\<lambda>f. language f = ''python'') (files scenarioC_full)) = 10
   \<and> length (files scenarioC_full) = 20
   \<and> analyzeCodebase demo_config scenarioC_fs clean_model ''proj'' = Inr []
   \<and> (\<exists>out. getCondensedContext scenarioC_fs ''proj'' 15 = Inr out
          \<and> length (files out) = 15
          \<and> map path (files out) =
               [[''a9.ts''], [''a8.ts''], [''a7.ts''], [''a6.ts''], [''a5.ts''],
                [''a4.ts''], [''a3.ts''], [''a2.ts''], [''a1.ts''], [''a0.ts''],
                [''p9.py''], [''p8.py''], [''p7.py''], [''p6.py''], [''p5.py'']])"
proof -
  have n: "(0::int) \<le> 15" by simp
  from condensed_selection [OF scenarioC_build n] obtain out where
    g: "getCondensedContext scenarioC_fs ''proj'' 15 = Inr out" and
    l: "length (files out) = min (nat 15) (length (files scenarioC_full))" and
    sc: "(15::int) = 15
           \<and> length (filter (\<lambda>f. language f = ''typescript'') (files scenarioC_full)) = 10
           \<and> length (filter (\<lambda>f. language f = ''python'') (files scenarioC_full)) = 10
           \<and> length (files scenarioC_full) = 20 \<longrightarrow>
         files out =
           sort_cmp compareFiles (filter (\<lambda>f. language f = ''typescript'') (files scenarioC_full))
           @ take 5 (sort_cmp compareFiles
                       (filter (\<lambda>f. language f = ''python'') (files scenarioC_full)))"
    by blast
  from l have l15: "length (files out) = 15" by (simp add: scenarioC_counts)
  from sc scenarioC_counts have
    "files out =
       sort_cmp compareFiles (filter (\<lambda>f. language f = ''typescript'') (files scenarioC_full))
       @ take 5 (sort_cmp compareFiles
                   (filter (\<lambda>f. language f = ''python'') (files scenarioC_full)))"
    by simp
  with scenarioC_expected have p:
    "map path (files out) =
       [[''a9.ts''], [''a8.ts''], [''a7.ts''], [''a6.ts''], [''a5.ts''],
        [''a4.ts''], [''a3.ts''], [''a2.ts''], [''a1.ts''], [''a0.ts''],
        [''p9.py''], [''p8.py''], [''p7.py''], [''p6.py''], [''p5.py'']]"
    by simp
  show ?thesis
    by (intro conjI exI [of _ out])
       (fact scenarioC_build n scenarioC_counts scenarioC_analyze g l15 p)+
qed

text \<open>
  Claim C6. The condenser is a function of the built context and of \<open>n\<close> alone (sort,
  then slice, then the summary of the result), and it is idempotent: condensing its own
  output again with the same \<open>n\<close> (\<open>0 \<le> n\<close>) returns that output, same files in the same
  order. In the output every primary-language file stands before every other file,
  whatever their sizes.
\<close>

theorem condenser_idempotent_tiers:
  assumes out: "getCondensedContext fs rootDir n = Inr out" and n: "0 \<le> n"
  shows "(\<exists>full. buildContext fs rootDir = Inr full
            \<and> files out = slice0 (sort_cmp compareFiles (files full)) n)
       \<and> summary out = generateSummary (files out)
       \<and> slice0 (sort_cmp compareFiles (files out)) n = files out
       \<and> (\<forall>i j. i < length (files out) \<and> j < length (files out)
                  \<and> primary (files out ! i) \<and> \<not> primary (files out ! j) \<longrightarrow> i < j)"
proof -
  from getCondensed_Inr [OF out] obtain full where
    full: "buildContext fs rootDir = Inr full" and
    fo: "files out = slice0 (sort_cmp compareFiles (files full)) n" and
    so: "summary out = generateSummary (files out)"
    by blast
  from fo n have tk: "files out = take (nat n) (sort_cmp compareFiles (files full))"
    by (simp add: slice0_nonneg)
  then have sorted: "sorted_wrt ranks_before (files out)"
    by (simp add: sorted_wrt_take sorted_sort_files)
  then have "sort_cmp compareFiles (files out) = files out"
    by (rule sort_files_sorted_id)
  with n tk have idem: "slice0 (sort_cmp compareFiles (files out)) n = files out"
    by (simp add: slice0_nonneg)
  have tiers: "i < j" if h: "i < length (files out)" "j < length (files out)"
      "primary (files out ! i)" "\<not> primary (files out ! j)" for i j
  proof (rule ccontr)
    assume "\<not> i < j"
    with h(3,4) have "j < i" by (cases "i = j") auto
    with sorted h(1) have "ranks_before (files out ! j) (files out ! i)"
      by (simp add: sorted_wrt_iff_nth_less)
    with h(3,4) show False by (simp add: ranks_before_def)
  qed
  from full fo so idem tiers show ?thesis by blast
qed

theorem condenser_idempotent_tiers_witness:
  "getCondensedContext mixed_fs ''proj'' 15 = Inr mixed_condensed \<and> (0::int) \<le> 15
   \<and> slice0 (sort_cmp compareFiles (files mixed_condensed)) 15 = files mixed_condensed
   \<and> map path (files mixed_condensed) = [[''src'', ''main.ts''], [''app.ts''], [''lib.py'']]
   \<and> map primary (files mixed_condensed) = [True, True, False]
   \<and> map size_f (files mixed_condensed) = [19, 9, 24]"
proof -
  have n: "(0::int) \<le> 15" by simp
  from condenser_idempotent_tiers [OF mixed_condense n]
  have i: "slice0 (sort_cmp compareFiles (files mixed_condensed)) 15 = files mixed_condensed"
    by blast
  have p: "map path (files mixed_condensed) = [[''src'', ''main.ts''], [''app.ts''], [''lib.py'']]"
    and q: "map primary (files mixed_condensed) = [True, True, False]"
    and s: "map size_f (files mixed_condensed) = [19, 9, 24]"
    by (simp_all add: mixed_condensed_def mixed_sorted_def mixed_files_def primary_def)
  show ?thesis
    by (intro conjI) (fact mixed_condense n i p q s)+
qed

section \<open>Context builder: failures, skipped files, summary, language tags\<close>

text \<open>
  Claim C3. \<^verbatim>\<open>buildContext\<close> on a non-empty root path fails with a
  \<^verbatim>\<open>ContextBuildError\<close> in three distinct ways: (1) when the root directory (or a
  directory the scan enters) cannot be listed, with the root directory in the field
  \<^verbatim>\<open>directory\<close>; (2) when discovery finds no supported file, as in an empty directory,
  with the message \<^verbatim>\<open>No supported files found in directory: ...\<close>; (3) when every
  discovered file is unreadable or over the cap, with a message that differs from (2). A
  context that is returned is never empty.
\<close>

theorem buildContext_failures:
  assumes "rootDir \<noteq> []"
  shows "(readdir_root fs rootDir = None \<longrightarrow>
            buildContext fs rootDir =
              Inl (ContextBuildError (''Failed to scan directory: '' @ rootDir) (Some rootDir)))
       \<and> (\<forall>e. scanDirectory fs rootDir = Inl e \<longrightarrow>
            buildContext fs rootDir =
              Inl (ContextBuildError (''Failed to scan directory: '' @ rootDir) (Some rootDir)))
       \<and> (readdir_root fs rootDir = Some [] \<or> scanDirectory fs rootDir = Inr [] \<longrightarrow>
            buildContext fs rootDir =
              Inl (ContextBuildError (''No supported files found in directory: '' @ rootDir) None))
       \<and> (\<forall>paths. scanDirectory fs rootDir = Inr paths \<and> paths \<noteq> []
                     \<and> (\<forall>p\<in>set paths. skipped fs p) \<longrightarrow>
            buildContext fs rootDir =
              Inl (ContextBuildError
                     ''No readable files found or all files exceed maximum size limit'' None))
       \<and> ''No readable files found or all files exceed maximum size limit''
            \<noteq> ''No supported files found in directory: '' @ rootDir
       \<and> (\<forall>ctx. buildContext fs rootDir = Inr ctx \<longrightarrow> files ctx \<noteq> [])"
proof -
  have 1: "readdir_root fs rootDir = None \<Longrightarrow> \<exists>e. scanDirectory fs rootDir = Inl e"
    by (simp add: scanDirectory_def scan_from_def)
  have 2: "scanDirectory fs rootDir = Inl e \<Longrightarrow>
            buildContext fs rootDir =
              Inl (ContextBuildError (''Failed to scan directory: '' @ rootDir) (Some rootDir))" for e
    using assms by (simp add: buildContext_def)
  have 3: "readdir_root fs rootDir = Some [] \<Longrightarrow> scanDirectory fs rootDir = Inr []"
    by (simp add: scanDirectory_def scan_from_def)
  have 4: "scanDirectory fs rootDir = Inr [] \<Longrightarrow>
            buildContext fs rootDir =
              Inl (ContextBuildError (''No supported files found in directory: '' @ rootDir) None)"
    using assms by (simp add: buildContext_def)
  have 5: "scanDirectory fs rootDir = Inr paths \<Longrightarrow> paths \<noteq> [] \<Longrightarrow> \<forall>p\<in>set paths. skipped fs p \<Longrightarrow>
            buildContext fs rootDir =
              Inl (ContextBuildError
                     ''No readable files found or all files exceed maximum size limit'' None)" for paths
    using buildContext_closed [OF assms, of fs paths]
    by (simp add: map_filter_empty accept_None)
  have 6: "''No readable files found or all files exceed maximum size limit''
            \<noteq> ''No supported files found in directory: '' @ rootDir"
    by simp
  from 1 2 3 4 5 6 buildContext_files_nonempty [of fs rootDir] show ?thesis
    by blast
qed

text \<open>The three failures at a missing directory, an empty directory
  and a directory whose files are all skipped.\<close>

theorem buildContext_failures_witness:
  "buildContext missing_fs ''proj''
     = Inl (ContextBuildError ''Failed to scan directory: proj'' (Some ''proj''))
   \<and> buildContext empty_fs ''proj''
     = Inl (ContextBuildError ''No supported files found in directory: proj'' None)
   \<and> buildContext unusable_fs ''proj''
     = Inl (ContextBuildError
              ''No readable files found or all files exceed maximum size limit'' None)"
proof -
  have r: "''proj'' \<noteq> []" by simp
  from buildContext_failures [OF r, of missing_fs]
  have 1: "buildContext missing_fs ''proj''
             = Inl (ContextBuildError ''Failed to scan directory: proj'' (Some ''proj''))"
    by (simp add: missing_fs_def)
  from buildContext_failures [OF r, of empty_fs]
  have 2: "buildContext empty_fs ''proj''
             = Inl (ContextBuildError ''No supported files found in directory: proj'' None)"
    by (simp add: empty_fs_def)
  from buildContext_failures [OF r, of unusable_fs] unusable_scan unusable_skipped
  have 3: "buildContext unusable_fs ''proj''
             = Inl (ContextBuildError
                      ''No readable files found or all files exceed maximum size limit'' None)"
    by simp
  from 1 2 3 show ?thesis by (intro conjI)
qed

text \<open>
  Claim C5. In the read pass a file longer than 100 KiB and a file that cannot be read
  are left out, the second with a warning, and neither stops the pass: when at least one
  discovered file is readable and within the cap, \<^verbatim>\<open>buildContext\<close> succeeds, its files
  are exactly the entries of the files that are not skipped, in discovery order, and
  \<^verbatim>\<open>totalFiles\<close> is their number.
\<close>

theorem read_pass_skips:
  assumes "rootDir \<noteq> []" and "scanDirectory fs rootDir = Inr paths"
    and "\<exists>p\<in>set paths. \<not> skipped fs p"
  shows "\<exists>ctx. buildContext fs rootDir = Inr ctx
           \<and> files ctx = List.map_filter (accept fs rootDir) paths
           \<and> map path (files ctx)
               = map (path_relative [rootDir]) (filter (\<lambda>p. \<not> skipped fs p) paths)
           \<and> totalFiles (summary ctx) = length (filter (\<lambda>p. \<not> skipped fs p) paths)
           \<and> buildContext_warnings fs rootDir = List.map_filter (read_warning fs) paths"
proof -
  let ?fcs = "List.map_filter (accept fs rootDir) paths"
  from assms(3) have ne: "paths \<noteq> []" "?fcs \<noteq> []"
    by (auto simp: map_filter_empty accept_None)
  with buildContext_closed [OF assms(1,2)]
  have b: "buildContext fs rootDir = Inr \<lparr> files = ?fcs, summary = generateSummary ?fcs \<rparr>"
    by simp
  have t: "totalFiles (generateSummary ?fcs) = length (filter (\<lambda>p. \<not> skipped fs p) paths)"
    using generateSummary_invariant [of ?fcs]
    by (simp add: length_map_filter accept_None)
  have w: "buildContext_warnings fs rootDir = List.map_filter (read_warning fs) paths"
    using assms(1,2) by (simp add: buildContext_warnings_def readLoop_closed)
  from b t w map_path_accept [of fs rootDir paths] show ?thesis by simp
qed

text \<open>Scenario B: only the \<^verbatim>\<open>.py\<close> file is in the context.\<close>

theorem read_pass_skips_witness:
  "''proj'' \<noteq> []
   \<and> scanDirectory scenarioB_fs ''proj'' = Inr [[''proj'', ''big.js''], [''proj'', ''small.py'']]
   \<and> (\<exists>p\<in>set [[''proj'', ''big.js''], [''proj'', ''small.py'']]. \<not> skipped scenarioB_fs p)
   \<and> (\<exists>ctx. buildContext scenarioB_fs ''proj'' = Inr ctx
          \<and> map path (files ctx) = [[''small.py'']]
          \<and> map language (files ctx) = [''python'']
          \<and> totalFiles (summary ctx) = 1
          \<and> buildContext_warnings scenarioB_fs ''proj'' = [])"
proof -
  have h1: "''proj'' \<noteq> []" by simp
  have h3: "\<exists>p\<in>set [[''proj'', ''big.js''], [''proj'', ''small.py'']]. \<not> skipped scenarioB_fs p"
    by (simp add: scenarioB_skipped)
  from read_pass_skips [OF h1 scenarioB_scan h3] obtain ctx where
    c: "buildContext scenarioB_fs ''proj'' = Inr ctx"
       "files ctx = List.map_filter (accept scenarioB_fs ''proj'')
                      [[''proj'', ''big.js''], [''proj'', ''small.py'']]"
       "map path (files ctx) = map (path_relative [''proj''])
          (filter (\<lambda>p. \<not> skipped scenarioB_fs p) [[''proj'', ''big.js''], [''proj'', ''small.py'']])"
       "totalFiles (summary ctx)
          = length (filter (\<lambda>p. \<not> skipped scenarioB_fs p)
                      [[''proj'', ''big.js''], [''proj'', ''small.py'']])"
       "buildContext_warnings scenarioB_fs ''proj''
          = List.map_filter (read_warning scenarioB_fs)
              [[''proj'', ''big.js''], [''proj'', ''small.py'']]"
    by blast
  have p: "map path (files ctx) = [[''small.py'']]"
    using c(3) by (simp add: scenarioB_skipped path_relative_def)
  have l: "map language (files ctx) = [''python'']"
    using c(2)
    by (simp add: accept_def scenarioB_fs_def MAX_FILE_SIZE_def getLanguage_def path_extname_def
          extname_def toLowerCase_def toLowerChar_def SUPPORTED_EXTENSIONS_def)
  have t: "totalFiles (summary ctx) = 1"
    using c(4) by (simp add: scenarioB_skipped)
  have w: "buildContext_warnings scenarioB_fs ''proj'' = []"
    using c(5) by (simp add: read_warning_def scenarioB_fs_def)
  show ?thesis
    by (intro conjI exI [of _ ctx]) (fact h1 scenarioB_scan h3 c(1) p l t w)+
qed

text \<open>
  Claim C7. In every context returned by \<^verbatim>\<open>buildContext\<close> or \<^verbatim>\<open>getCondensedContext\<close>,
  \<^verbatim>\<open>totalFiles\<close> is the number of files, \<^verbatim>\<open>totalLines\<close> is the sum of the files' line
  counts, and the per-language counts add up to \<^verbatim>\<open>totalFiles\<close>.
\<close>

theorem summary_invariant:
  assumes "buildContext fs rootDir = Inr ctx \<or> getCondensedContext fs rootDir n = Inr ctx"
  shows "totalFiles (summary ctx) = length (files ctx)
       \<and> totalLines (summary ctx) = (\<Sum>f\<leftarrow>files ctx. length (split_on newline (content f)))
       \<and> sum_list (map snd (languages (summary ctx))) = totalFiles (summary ctx)"
proof -
  from assms have "summary ctx = generateSummary (files ctx)"
    by (auto simp: getCondensedContext_def Let_def dest: buildContext_files_nonempty
             split: sum.splits)
  with generateSummary_invariant [of "files ctx"] show ?thesis by simp
qed

theorem summary_invariant_witness:
  "buildContext mixed_fs ''proj'' = Inr mixed_full
   \<and> totalFiles (summary mixed_full) = 3
   \<and> totalLines (summary mixed_full) = 4
   \<and> sum_list (map snd (languages (summary mixed_full))) = 3"
proof -
  from summary_invariant [of mixed_fs "''proj''" mixed_full 15] mixed_build
  have "totalFiles (summary mixed_full) = length (files mixed_full)
       \<and> totalLines (summary mixed_full)
           = (\<Sum>f\<leftarrow>files mixed_full. length (split_on newline (content f)))
       \<and> sum_list (map snd (languages (summary mixed_full))) = totalFiles (summary mixed_full)"
    by simp
  moreover have "length (files mixed_full) = 3"
    by (simp add: mixed_full_def mixed_files_def)
  moreover have "(\<Sum>f\<leftarrow>files mixed_full. length (split_on newline (content f))) = 4"
    by (simp add: mixed_full_def mixed_files_def newline_def)
  ultimately show ?thesis using mixed_build by simp
qed

text \<open>
  Claim C10. Every file of a context returned by \<^verbatim>\<open>buildContext\<close> or
  \<^verbatim>\<open>getCondensedContext\<close> has a language tag that is a value of the extension table,
  never the default \<^verbatim>\<open>text\<close>: the file comes from a discovered path, discovery admits
  only names whose lower-cased extension is a key of the table, and the tag is the
  table's value at that key.
\<close>

theorem language_tags_from_table:
  assumes "buildContext fs rootDir = Inr ctx \<or> getCondensedContext fs rootDir n = Inr ctx"
  shows "\<forall>f\<in>set (files ctx).
           language f \<in> snd ` set SUPPORTED_EXTENSIONS \<and> language f \<noteq> ''text''
           \<and> (\<exists>paths p. scanDirectory fs rootDir = Inr paths \<and> p \<in> set paths
                 \<and> p \<noteq> [] \<and> isSupportedFile (last p)
                 \<and> path f = path_relative [rootDir] p
                 \<and> map_of SUPPORTED_EXTENSIONS (toLowerCase (path_extname p))
                     = Some (language f))"
proof
  fix f assume f: "f \<in> set (files ctx)"
  from assms obtain full where full: "buildContext fs rootDir = Inr full"
    and sub: "set (files ctx) \<subseteq> set (files full)"
  proof
    assume "buildContext fs rootDir = Inr ctx"
    then show ?thesis using that by blast
  next
    assume "getCondensedContext fs rootDir n = Inr ctx"
    from getCondensed_Inr [OF this] obtain full where
      "buildContext fs rootDir = Inr full"
      "files ctx = slice0 (sort_cmp compareFiles (files full)) n"
      by blast
    with slice0_subset [of "sort_cmp compareFiles (files full)" n] show ?thesis
      using that by (simp add: set_sort_cmp)
  qed
  from buildContext_Inr_scan [OF full] obtain paths where
    sc: "scanDirectory fs rootDir = Inr paths" and
    fl: "files full = List.map_filter (accept fs rootDir) paths"
    by blast
  from f sub fl obtain p where p: "p \<in> set paths" and a: "accept fs rootDir p = Some f"
    by (auto simp: set_map_filter)
  from scanned_supported [OF sc p] have sp: "p \<noteq> []" "isSupportedFile (last p)" by simp_all
  from supported_language [OF sp] accept_language [OF a]
  have m: "map_of SUPPORTED_EXTENSIONS (toLowerCase (path_extname p)) = Some (language f)"
    by simp
  from map_of_SomeD [OF m] have v: "language f \<in> snd ` set SUPPORTED_EXTENSIONS"
    by force
  from table_values_nonempty [OF m] v sc p sp accept_path [OF a] m
  show "language f \<in> snd ` set SUPPORTED_EXTENSIONS \<and> language f \<noteq> ''text''
           \<and> (\<exists>paths p. scanDirectory fs rootDir = Inr paths \<and> p \<in> set paths
                 \<and> p \<noteq> [] \<and> isSupportedFile (last p)
                 \<and> path f = path_relative [rootDir] p
                 \<and> map_of SUPPORTED_EXTENSIONS (toLowerCase (path_extname p))
                     = Some (language f))"
    by blast
qed

theorem language_tags_from_table_witness:
  "buildContext mixed_fs ''proj'' = Inr mixed_full
   \<and> map language (files mixed_full) = [''python'', ''typescript'', ''typescript'']
   \<and> language (mixed_files ! 0) \<in> snd ` set SUPPORTED_EXTENSIONS
   \<and> language (mixed_files ! 0) \<noteq> ''text''
   \<and> language (mixed_files ! 2) \<in> snd ` set SUPPORTED_EXTENSIONS
   \<and> language (mixed_files ! 2) \<noteq> ''text''"
proof -
  have b: "buildContext mixed_fs ''proj'' = Inr mixed_full
             \<or> getCondensedContext mixed_fs ''proj'' 15 = Inr mixed_full"
    using mixed_build by simp
  have m0: "mixed_files ! 0 \<in> set (files mixed_full)"
    and m2: "mixed_files ! 2 \<in> set (files mixed_full)"
    by (simp_all add: mixed_full_def mixed_files_def)
  from language_tags_from_table [OF b] m0
  have 0: "language (mixed_files ! 0) \<in> snd ` set SUPPORTED_EXTENSIONS
            \<and> language (mixed_files ! 0) \<noteq> ''text''"
    by blast
  from language_tags_from_table [OF b] m2
  have 2: "language (mixed_files ! 2) \<in> snd ` set SUPPORTED_EXTENSIONS
            \<and> language (mixed_files ! 2) \<noteq> ''text''"
    by blast
  have l: "map language (files mixed_full) = [''python'', ''typescript'', ''typescript'']"
    by (simp add: mixed_full_def mixed_files_def)
  from mixed_build l 0 2 show ?thesis by (intro conjI) blast+
qed

section \<open>File discovery\<close>

text \<open>
  Claim C9. For a root directory that can be listed, a scan that returns gives exactly
  the regular files of the tree that have a supported extension and do not lie under a
  directory, below the root, whose name starts with a dot or is in the ignore-list: no
  returned path lies under such a directory, and every other supported regular file of
  the tree is returned. This holds for \<^verbatim>\<open>ContextManager.scanDirectory\<close> and for
  \<^verbatim>\<open>FileScanner.scanDirectory\<close>, each with its own lists.
\<close>

theorem discovery_excludes_includes:
  assumes "readdir_root fs dir = Some entries"
  shows "(\<forall>out. scanDirectory fs dir = Inr out \<longrightarrow>
            out = filter (discovered IGNORED_DIRS isSupportedFile [dir]) (tree_files [dir] entries)
            \<and> (\<forall>p\<in>set out. \<not> under_excluded IGNORED_DIRS [dir] p)
            \<and> (\<forall>p\<in>set (tree_files [dir] entries).
                  isSupportedFile (last p) \<and> \<not> under_excluded IGNORED_DIRS [dir] p
                    \<longrightarrow> p \<in> set out))
       \<and> (\<forall>out. FileScanner_scanDirectory fs dir = Inr out \<longrightarrow>
            out = filter (discovered FileScanner_IGNORED_DIRS FileScanner_isSupportedFile [dir])
                    (tree_files [dir] entries)
            \<and> (\<forall>p\<in>set out. \<not> under_excluded FileScanner_IGNORED_DIRS [dir] p)
            \<and> (\<forall>p\<in>set (tree_files [dir] entries).
                  FileScanner_isSupportedFile (last p)
                  \<and> \<not> under_excluded FileScanner_IGNORED_DIRS [dir] p
                    \<longrightarrow> p \<in> set out))"
proof -
  have gen: "out = filter (discovered ign okf [dir]) (tree_files [dir] entries)
            \<and> (\<forall>p\<in>set out. \<not> under_excluded ign [dir] p)
            \<and> (\<forall>p\<in>set (tree_files [dir] entries).
                  okf (last p) \<and> \<not> under_excluded ign [dir] p \<longrightarrow> p \<in> set out)"
    if "scan_from ign okf fs dir = Inr out" for ign okf out
  proof -
    from that assms have "scan ign okf [dir] entries [] = Inr out"
      by (simp add: scan_from_def)
    from scan_closed [OF this]
    have eq: "out = filter (discovered ign okf [dir]) (tree_files [dir] entries)" by simp
    have ne: "p \<noteq> []" if "p \<in> set (tree_files [dir] entries)" for p
      using tree_files_form [OF that] by auto
    from eq ne show ?thesis by (auto simp: discovered_def)
  qed
  show ?thesis
    unfolding scanDirectory_def FileScanner_scanDirectory_def using gen by blast
qed

theorem discovery_excludes_includes_witness:
  "readdir_root mixed_fs ''proj'' = Some mixed_entries
   \<and> scanDirectory mixed_fs ''proj''
       = Inr [[''proj'', ''lib.py''], [''proj'', ''app.ts''], [''proj'', ''src'', ''main.ts'']]
   \<and> FileScanner_scanDirectory mixed_fs ''proj''
       = Inr [[''proj'', ''lib.py''], [''proj'', ''app.ts''], [''proj'', ''src'', ''main.ts'']]
   \<and> filter (discovered IGNORED_DIRS isSupportedFile [''proj''])
        (tree_files [''proj''] mixed_entries)
       = [[''proj'', ''lib.py''], [''proj'', ''app.ts''], [''proj'', ''src'', ''main.ts'']]
   \<and> filter (discovered FileScanner_IGNORED_DIRS FileScanner_isSupportedFile [''proj''])
        (tree_files [''proj''] mixed_entries)
       = [[''proj'', ''lib.py''], [''proj'', ''app.ts''], [''proj'', ''src'', ''main.ts'']]
   \<and> [''proj'', ''node_modules'', ''dep.js''] \<in> set (tree_files [''proj''] mixed_entries)
   \<and> isSupportedFile ''dep.js''
   \<and> under_excluded IGNORED_DIRS [''proj''] [''proj'', ''node_modules'', ''dep.js'']"
proof -
  have e: "readdir_root mixed_fs ''proj'' = Some mixed_entries"
    by (simp add: mixed_fs_def)
  from discovery_excludes_includes [OF e] mixed_scan
  have 1: "filter (discovered IGNORED_DIRS isSupportedFile [''proj''])
             (tree_files [''proj''] mixed_entries)
           = [[''proj'', ''lib.py''], [''proj'', ''app.ts''], [''proj'', ''src'', ''main.ts'']]"
    by simp
  from discovery_excludes_includes [OF e] mixed_scan_FileScanner
  have 2: "filter (discovered FileScanner_IGNORED_DIRS FileScanner_isSupportedFile [''proj''])
             (tree_files [''proj''] mixed_entries)
           = [[''proj'', ''lib.py''], [''proj'', ''app.ts''], [''proj'', ''src'', ''main.ts'']]"
    by simp
  have 3: "[''proj'', ''node_modules'', ''dep.js''] \<in> set (tree_files [''proj''] mixed_entries)"
    by (simp add: mixed_tree)
  have 4: "under_excluded IGNORED_DIRS [''proj''] [''proj'', ''node_modules'', ''dep.js'']"
    by (simp add: under_excluded_def excluded_dir_def IGNORED_DIRS_def)
  from e mixed_scan mixed_scan_FileScanner 1 2 3 mixed_supported(5) 4 show ?thesis
    by (intro conjI)
qed

section \<open>Analysis and insight clients\<close>

text \<open>
  Claim C4. Once the inputs are valid and the condensed context is built, the outcome of
  \<^verbatim>\<open>analyzeCodebase\<close> is decided by the model's answer: no object, or an object whose
  \<^verbatim>\<open>vulnerabilities\<close> is not an array, gives an \<^verbatim>\<open>AIAnalysisError\<close> and no default
  result; an array is returned as it is, the empty array included; an error thrown by the
  call is wrapped in an \<^verbatim>\<open>AIAnalysisError\<close> with the error as its cause. A thrown value
  that is not an \<^verbatim>\<open>Error\<close> is wrapped too, its text appended to the message.
\<close>

theorem analyzeCodebase_response_validation:
  assumes "rootDir \<noteq> []" and "apiKey config \<noteq> []" and "model config \<noteq> []"
    and ctx: "getCondensedContext fs rootDir 15 = Inr ctx"
  shows "(\<forall>r. gen (model config) ctx = Inr r \<and> object_a r = None \<longrightarrow>
            analyzeCodebase config fs gen rootDir =
              Inl (AIAnalysisError ''Invalid response format from AI analysis'' None))
       \<and> (\<forall>r obj. gen (model config) ctx = Inr r \<and> object_a r = Some obj
                    \<and> obj_vulnerabilities obj = None \<longrightarrow>
            analyzeCodebase config fs gen rootDir =
              Inl (AIAnalysisError ''Invalid response format from AI analysis'' None))
       \<and> (\<forall>r obj vs. gen (model config) ctx = Inr r \<and> object_a r = Some obj
                    \<and> obj_vulnerabilities obj = Some vs \<longrightarrow>
            analyzeCodebase config fs gen rootDir = Inr vs)
       \<and> (\<forall>r obj. gen (model config) ctx = Inr r \<and> object_a r = Some obj
                    \<and> obj_vulnerabilities obj = Some [] \<longrightarrow>
            analyzeCodebase config fs gen rootDir = Inr [])
       \<and> (\<forall>e. gen (model config) ctx = Inl (ThrowError e) \<longrightarrow>
            analyzeCodebase config fs gen rootDir =
              Inl (AIAnalysisError ''AI analysis request failed'' (Some e)))
       \<and> (\<forall>s. gen (model config) ctx = Inl (ThrowOther s) \<longrightarrow>
            analyzeCodebase config fs gen rootDir =
              Inl (AIAnalysisError (''AI analysis request failed: '' @ s) None))"
  using assms condensed15_nonempty [OF ctx]
  by (simp add: analyzeCodebase_def tryAsync_def throwing_def)

theorem analyzeCodebase_response_validation_witness:
  "getCondensedContext mixed_fs ''proj'' 15 = Inr mixed_condensed
   \<and> analyzeCodebase demo_config mixed_fs absent_model ''proj''
       = Inl (AIAnalysisError ''Invalid response format from AI analysis'' None)
   \<and> analyzeCodebase demo_config mixed_fs no_array_model ''proj''
       = Inl (AIAnalysisError ''Invalid response format from AI analysis'' None)
   \<and> analyzeCodebase demo_config mixed_fs clean_model ''proj'' = Inr []
   \<and> analyzeCodebase demo_config mixed_fs failing_model ''proj''
       = Inl (AIAnalysisError ''AI analysis request failed'' (Some (Error ''fetch failed'')))
   \<and> analyzeCodebase demo_config mixed_fs odd_model ''proj''
       = Inl (AIAnalysisError ''AI analysis request failed: boom'' None)"
proof -
  have r: "''proj'' \<noteq> []" and k: "apiKey demo_config \<noteq> []" and m: "model demo_config \<noteq> []"
    by (simp_all add: demo_config_def)
  note v = analyzeCodebase_response_validation [OF r k m mixed_condense]
  from v [of absent_model]
  have 1: "analyzeCodebase demo_config mixed_fs absent_model ''proj''
             = Inl (AIAnalysisError ''Invalid response format from AI analysis'' None)"
    by (simp add: absent_model_def)
  from v [of no_array_model]
  have 2: "analyzeCodebase demo_config mixed_fs no_array_model ''proj''
             = Inl (AIAnalysisError ''Invalid response format from AI analysis'' None)"
    by (simp add: no_array_model_def)
  from v [of clean_model]
  have 3: "analyzeCodebase demo_config mixed_fs clean_model ''proj'' = Inr []"
    by (simp add: clean_model_def)
  from v [of failing_model]
  have 4: "analyzeCodebase demo_config mixed_fs failing_model ''proj''
             = Inl (AIAnalysisError ''AI analysis request failed'' (Some (Error ''fetch failed'')))"
    by (simp add: failing_model_def)
  from v [of odd_model]
  have 5: "analyzeCodebase demo_config mixed_fs odd_model ''proj''
             = Inl (AIAnalysisError ''AI analysis request failed: boom'' None)"
    by (simp add: odd_model_def)
  from mixed_condense 1 2 3 4 5 show ?thesis by (intro conjI)
qed

text \<open>
  Claim C8, as amended. The repository has two classes \<^verbatim>\<open>InsightGenerator\<close>. For the
  one whose schema has the paragraph \<^verbatim>\<open>analysis\<close>, a successful \<^verbatim>\<open>generateInsights\<close>
  returns exactly one string, the narrative of the model's answer, and it is not empty;
  with a valid configuration and an answer that has a non-empty narrative and a risk
  assessment the call succeeds for every vulnerability list, the empty one included. For
  the one whose schema has the lists \<^verbatim>\<open>insights\<close> and \<^verbatim>\<open>recommendations\<close>, a successful
  \<^verbatim>\<open>generateInsights\<close> returns a non-empty list: the insights, then the recommendations
  with the prefix \<^verbatim>\<open>Recommendation: \<close>, after a high-risk line when the overall risk is
  high and before a line of the priority areas when there are any; it can have more than
  one element. In both classes the vulnerability list reaches the result only through the
  prompt sent to the model, so an empty list is never by itself a reason to fail.
\<close>

theorem generateInsights_by_schema:
  "(\<forall>out. generateInsights config gen vs = Inr out \<longrightarrow>
       (\<exists>a. out = [a] \<and> a \<noteq> []
           \<and> (\<exists>r obj. gen (model config) vs = Inr r \<and> object_i r = Some obj
                  \<and> analysis obj = Some a)))
   \<and> (\<forall>r obj a ra. apiKey config \<noteq> [] \<and> model config \<noteq> []
         \<and> gen (model config) vs = Inr r \<and> object_i r = Some obj
         \<and> analysis obj = Some a \<and> a \<noteq> [] \<and> riskAssessment obj = Some ra \<longrightarrow>
         generateInsights config gen vs = Inr [a])
   \<and> generateInsights config gen vs = generateInsights config (\<lambda>m x. gen m vs) []
   \<and> (\<forall>out. generateInsights_lists config gen_l vs = Inr out \<longrightarrow>
         out \<noteq> []
         \<and> (\<exists>r obj ins recs ra. gen_l (model config) vs = Inr r \<and> object_l r = Some obj
               \<and> lo_insights obj = Some ins \<and> lo_recommendations obj = Some recs
               \<and> lo_riskAssessment obj = Some ra
               \<and> out = (if lr_overallRisk ra = Some High then [high_risk_line] else [])
                       @ ins @ map (\<lambda>rec. ''Recommendation: '' @ rec) recs
                       @ (case lr_priorityAreas ra of
                            None \<Rightarrow> []
                          | Some areas \<Rightarrow>
                              if areas = [] then []
                              else [''Priority areas: '' @ join_with '', '' areas])))
   \<and> generateInsights_lists config gen_l vs
       = generateInsights_lists config (\<lambda>m x. gen_l m vs) []"
proof -
  note n = generateInsights_narrative [of config gen vs]
  note l = generateInsights_lists_Inr [of config gen_l vs]
  show ?thesis
  proof (intro conjI)
    show "\<forall>out. generateInsights config gen vs = Inr out \<longrightarrow>
            (\<exists>a. out = [a] \<and> a \<noteq> []
                \<and> (\<exists>r obj. gen (model config) vs = Inr r \<and> object_i r = Some obj
                       \<and> analysis obj = Some a))"
      by (rule n [THEN conjunct1])
    show "\<forall>r obj a ra. apiKey config \<noteq> [] \<and> model config \<noteq> []
            \<and> gen (model config) vs = Inr r \<and> object_i r = Some obj
            \<and> analysis obj = Some a \<and> a \<noteq> [] \<and> riskAssessment obj = Some ra \<longrightarrow>
            generateInsights config gen vs = Inr [a]"
      by (rule n [THEN conjunct2, THEN conjunct1])
    show "generateInsights config gen vs = generateInsights config (\<lambda>m x. gen m vs) []"
      by (rule n [THEN conjunct2, THEN conjunct2])
    show "\<forall>out. generateInsights_lists config gen_l vs = Inr out \<longrightarrow>
         out \<noteq> []
         \<and> (\<exists>r obj ins recs ra. gen_l (model config) vs = Inr r \<and> object_l r = Some obj
               \<and> lo_insights obj = Some ins \<and> lo_recommendations obj = Some recs
               \<and> lo_riskAssessment obj = Some ra
               \<and> out = (if lr_overallRisk ra = Some High then [high_risk_line] else [])
                       @ ins @ map (\<lambda>rec. ''Recommendation: '' @ rec) recs
                       @ (case lr_priorityAreas ra of
                            None \<Rightarrow> []
                          | Some areas \<Rightarrow>
                              if areas = [] then []
                              else [''Priority areas: '' @ join_with '', '' areas]))"
      by (intro allI impI) (rule l)
    show "generateInsights_lists config gen_l vs
            = generateInsights_lists config (\<lambda>m x. gen_l m vs) []"
      by (rule generateInsights_lists_prompt_only)
  qed
qed

text \<open>The claim as first stated, exactly one element on success, fails for the
  class with the list schema: one insight and one recommendation give two elements.\<close>

theorem generateInsights_lists_counterexample:
  "generateInsights_lists demo_config listing_model []
     = Inr [''No issues were found.'', ''Recommendation: Keep dependencies current.'']"
  by (simp add: generateInsights_lists_def demo_config_def listing_model_def tryAsync_def)

text \<open>An empty vulnerability list and an answer describing a clean codebase.\<close>

theorem generateInsights_by_schema_witness:
  "generateInsights demo_config narrative_model [] = Inr [''No issues were found.'']"
proof -
  let ?ra = "\<lparr> risk_overallRisk = Low, priorityAreas = [] \<rparr>"
  let ?obj = "\<lparr> analysis = Some ''No issues were found.'', riskAssessment = Some ?ra \<rparr>"
  note t = generateInsights_by_schema
             [of demo_config narrative_model "[]", THEN conjunct2, THEN conjunct1, rule_format,
              of "\<lparr> object_i = Some ?obj \<rparr>" ?obj "''No issues were found.''" ?ra]
  show ?thesis
    by (rule t) (simp add: demo_config_def narrative_model_def)
qed

end
